theory Spec2Isabelle
  imports Complex_Main
begin

section \<open>Glow-TTS training driver: \<^verbatim>\<open>TTS/bin/train_glow_tts.py\<close>\<close>

text \<open>
  The script drives collaborators (model, optimizer, loaders, loggers) whose code lives in
  other modules. A call into a collaborator is recorded as an \<open>event\<close>; a function of the
  script is an \<open>act\<close>: the list of events it performed, in order, together with either the
  exception that left it (\<open>Inl\<close>) or the value it returned (\<open>Inr\<close>).
\<close>

subsection \<open>Python values\<close>

text \<open>
  Exceptions by their place in Python's hierarchy: \<open>KeyboardInterrupt\<close> and \<open>SystemExit\<close>
  derive from \<open>BaseException\<close> only; \<open>Exception n\<close> stands for an instance of a class
  named \<open>n\<close> that derives from \<open>Exception\<close>.
\<close>

datatype exn = KeyboardInterrupt | SystemExit int | Exception string

fun is_Exception :: "exn \<Rightarrow> bool" where
  "is_Exception (Exception n) = True"
| "is_Exception KeyboardInterrupt = False"
| "is_Exception (SystemExit c) = False"

text \<open>A loss value: a finite number (taken exactly) or \<open>float("inf")\<close>.\<close>

datatype pyfloat = Fin rat | PosInf

fun float_less :: "pyfloat \<Rightarrow> pyfloat \<Rightarrow> bool" where
  "float_less (Fin a) (Fin b) = (a < b)"
| "float_less (Fin a) PosInf = True"
| "float_less PosInf b = False"

datatype device = Cpu | Cuda

datatype 'a tensor = Tensor device 'a

fun cuda :: "'a tensor \<Rightarrow> 'a tensor" where
  "cuda (Tensor d v) = Tensor Cuda v"

fun tensor_data :: "'a tensor \<Rightarrow> 'a" where
  "tensor_data (Tensor d v) = v"

text \<open>
  A value of the speaker mapping: an integer id (id mode) or the entry of the external
  embedding file, a dict of named vectors.
\<close>

datatype speaker_val = IdVal int | DictVal "(string \<times> rat list) list"

type_synonym speaker_mapping = "(string \<times> speaker_val) list"

text \<open>The speaker conditioning handed to the model.\<close>

datatype speaker_cond = Embeddings "rat list list" | SpeakerIds "int list"

fun speaker_batch_dim :: "speaker_cond \<Rightarrow> nat" where
  "speaker_batch_dim (Embeddings es) = length es"
| "speaker_batch_dim (SpeakerIds is) = length is"

subsection \<open>Configuration, arguments and module globals\<close>

record config =
  run_eval :: bool
  batch_size :: int
  eval_batch_size :: int
  use_phonemes :: bool
  compute_input_seq_cache :: bool
  use_speaker_embedding :: bool
  use_external_speaker_embedding_file :: bool
  data_dep_init_steps :: int
  mixed_precision :: bool
  grad_clip :: rat
  noam_schedule :: bool
  print_step :: int
  tb_plot_step :: int
  save_step :: int
  checkpoint :: bool
  tb_model_param_stats :: bool
  print_eval :: bool
  test_delay_epochs :: int
  test_sentences_file :: "string option"
  has_characters :: bool
  epochs :: int

record args =
  rank :: int
  restore_path :: "string option"
  best_path :: "string option"

record globals =
  use_cuda :: bool
  num_gpus :: int
  OUT_PATH :: string
  AUDIO_PATH :: string

text \<open>Python truthiness of an optional string: \<open>None\<close> and \<open>""\<close> are false.\<close>

fun truthy :: "string option \<Rightarrow> bool" where
  "truthy None = False"
| "truthy (Some s) = (s \<noteq> [])"

subsection \<open>The model object\<close>

text \<open>
  A decoder flow layer: whether it has a \<open>set_ddi\<close> attribute, and its data-dependent-init
  flag. A model is held directly or inside the distributed wrapper, which has the attribute
  \<open>module\<close>.
\<close>

record flow =
  has_set_ddi :: bool
  ddi :: bool

datatype model = Plain "flow list" | Wrapped "flow list"

fun has_module :: "model \<Rightarrow> bool" where
  "has_module (Wrapped fs) = True"
| "has_module (Plain fs) = False"

fun decoder_flows :: "model \<Rightarrow> flow list" where
  "decoder_flows (Wrapped fs) = fs"
| "decoder_flows (Plain fs) = fs"

subsection \<open>Batches\<close>

text \<open>
  The tuple the loader yields, by the positions \<open>format_data\<close> reads: \<open>data[0]\<close>,
  \<open>data[1]\<close>, \<open>data[2]\<close>, \<open>data[4]\<close> (batch x time x channel), \<open>data[5]\<close>, \<open>data[7]\<close>,
  \<open>data[8]\<close> and \<open>data[9]\<close>.
\<close>

record raw_batch =
  text_input :: "nat list list"
  text_lengths :: "nat list"
  speaker_names :: "string list"
  mel_input :: "rat list list list"
  mel_lengths :: "nat list"
  item_idx :: "string list"
  speaker_embeddings :: "rat list list option"
  attn_mask :: "rat list list list option"

text \<open>
  The tuple \<open>format_data\<close> returns. The two averages \<open>avg_text_length\<close> and
  \<open>avg_spec_length\<close> are floating-point means used for console output only and are left
  out.
\<close>

record formatted =
  f_text_input :: "nat list list tensor"
  f_text_lengths :: "nat list tensor"
  f_mel_input :: "rat list list list tensor"
  f_mel_lengths :: "nat list tensor"
  f_speaker_c :: "speaker_cond tensor option"
  f_attn_mask :: "rat list list list tensor option"
  f_item_idx :: "string list"

text \<open>The invariant of a batch: the first dimension of every field is the batch size.\<close>

definition batch_dim :: "raw_batch \<Rightarrow> nat" where
  "batch_dim data = length (text_input data)"

definition wf_batch :: "raw_batch \<Rightarrow> bool" where
  "wf_batch data \<longleftrightarrow>
     length (text_lengths data) = batch_dim data \<and>
     length (speaker_names data) = batch_dim data \<and>
     length (mel_input data) = batch_dim data \<and>
     length (mel_lengths data) = batch_dim data \<and>
     length (item_idx data) = batch_dim data \<and>
     (case speaker_embeddings data of None \<Rightarrow> True | Some es \<Rightarrow> length es = batch_dim data) \<and>
     (case attn_mask data of None \<Rightarrow> True | Some m \<Rightarrow> length m = batch_dim data)"

subsection \<open>Events and acts\<close>

text \<open>
  A pass over a loader: the warm-up pass, or the training or validation pass of an epoch.
  An event names the call: \<open>Call\<close> and \<open>Log\<close> carry the dotted name of the callee (and
  the global step a logger is given); the calls the properties below speak about have a
  constructor of their own, with the arguments that matter.
\<close>

datatype phase = Init | Train nat | Eval nat

datatype event =
    Raised exn
  | Print string
  | Call string
  | Log string int
  | DataLoader_new int bool
  | Set_ddi nat bool
  | Model_forward model bool
  | Clip_grad_norm rat
  | Reduce_tensor string
  | Save_checkpoint int nat rat
  | Open_file string
  | Randrange int
  | Synthesis nat string "int option" "rat list option"
  | Makedirs string
  | Save_wav "rat list" string
  | Torch_load string
  | NoamLR_new int
  | Save_best_model pyfloat pyfloat int nat
  | Remove_experiment_folder string
  | Sys_exit int
  | Os_exit int

type_synonym 'a act = "event list \<times> (exn + 'a)"

definition ret :: "'a \<Rightarrow> 'a act" where
  "ret v = ([], Inr v)"

definition emit :: "event \<Rightarrow> unit act" where
  "emit ev = ([ev], Inr ())"

text \<open>An exception raised here: the raise is recorded, then it propagates.\<close>

definition raise :: "exn \<Rightarrow> 'a act" where
  "raise e = ([Raised e], Inl e)"

text \<open>A call that may fail: the call is recorded, then it returns or raises.\<close>

definition call :: "event \<Rightarrow> exn + 'a \<Rightarrow> 'a act" where
  "call ev outcome = (case outcome of Inl e \<Rightarrow> ([ev, Raised e], Inl e) | Inr v \<Rightarrow> ([ev], Inr v))"

definition call_unit :: "event \<Rightarrow> exn option \<Rightarrow> unit act" where
  "call_unit ev outcome = (case outcome of Some e \<Rightarrow> ([ev, Raised e], Inl e) | None \<Rightarrow> ([ev], Inr ()))"

text \<open>Sequencing: an exception skips the rest.\<close>

definition bind :: "'a act \<Rightarrow> ('a \<Rightarrow> 'b act) \<Rightarrow> 'b act" where
  "bind m f = (case m of
       (t, Inl e) \<Rightarrow> (t, Inl e)
     | (t, Inr v) \<Rightarrow> (case f v of (t', r) \<Rightarrow> (t @ t', r)))"

definition seq :: "unit act \<Rightarrow> 'b act \<Rightarrow> 'b act" where
  "seq m k = bind m (\<lambda>_. k)"

definition if_then :: "bool \<Rightarrow> unit act \<Rightarrow> unit act" where
  "if_then c m = (if c then m else ret ())"

text \<open>\<open>try: body except: handler\<close> with a bare \<open>except\<close>, which catches every exception.\<close>

definition try_except :: "'a act \<Rightarrow> (exn \<Rightarrow> 'a act) \<Rightarrow> 'a act" where
  "try_except body handler = (case body of
       (t, Inl e) \<Rightarrow> (case handler e of (t', r) \<Rightarrow> (t @ t', r))
     | (t, Inr v) \<Rightarrow> (t, Inr v))"

definition trace :: "'a act \<Rightarrow> event list" where
  "trace m = fst m"

definition result :: "'a act \<Rightarrow> exn + 'a" where
  "result m = snd m"

definition returns :: "'a act \<Rightarrow> bool" where
  "returns m = (case snd m of Inl e \<Rightarrow> False | Inr v \<Rightarrow> True)"

text \<open>No event of an act satisfies \<open>P\<close>.\<close>

definition never :: "(event \<Rightarrow> bool) \<Rightarrow> 'a act \<Rightarrow> bool" where
  "never P m \<longleftrightarrow> list_all (\<lambda>ev. \<not> P ev) (trace m)"

text \<open>In a list of events, an \<open>a\<close> is followed, later on, by a \<open>b\<close>.\<close>

fun precedes :: "'a \<Rightarrow> 'a \<Rightarrow> 'a list \<Rightarrow> bool" where
  "precedes a b [] = False"
| "precedes a b (x # xs) = (if x = a then b \<in> set xs else precedes a b xs)"

subsection \<open>\<open>format_data\<close>\<close>

text \<open>\<open>d[k]\<close> on a dict kept in insertion order: the value, or \<open>KeyError\<close>.\<close>

definition dict_get :: "(string \<times> 'v) list \<Rightarrow> string \<Rightarrow> 'v act" where
  "dict_get d k = (case map_of d k of None \<Rightarrow> raise (Exception ''KeyError'') | Some v \<Rightarrow> ret v)"

text \<open>The comprehension \<open>[speaker_mapping[n] for n in speaker_names]\<close>.\<close>

fun lookup_speakers :: "speaker_mapping \<Rightarrow> string list \<Rightarrow> speaker_val list act" where
  "lookup_speakers sm [] = ret []"
| "lookup_speakers sm (n # ns) =
     bind (dict_get sm n) (\<lambda>v. bind (lookup_speakers sm ns) (\<lambda>vs. ret (v # vs)))"

text \<open>\<open>torch.LongTensor(xs)\<close>: every element has to be an integer.\<close>

fun long_tensor :: "speaker_val list \<Rightarrow> int list act" where
  "long_tensor [] = ret []"
| "long_tensor (IdVal i # vs) = bind (long_tensor vs) (\<lambda>is. ret (i # is))"
| "long_tensor (DictVal d # vs) = raise (Exception ''TypeError'')"

definition to_device :: "globals \<Rightarrow> 'a \<Rightarrow> 'a tensor" where
  "to_device g v = (if use_cuda g then cuda (Tensor Cpu v) else Tensor Cpu v)"

definition speaker_conditioning ::
  "config \<Rightarrow> speaker_mapping \<Rightarrow> raw_batch \<Rightarrow> speaker_cond option act" where
  "speaker_conditioning cfg sm data =
     (if use_speaker_embedding cfg then
        (if use_external_speaker_embedding_file cfg then
           ret (map_option Embeddings (speaker_embeddings data))
         else
           bind (lookup_speakers sm (speaker_names data)) (\<lambda>vs.
           bind (long_tensor vs) (\<lambda>is. ret (Some (SpeakerIds is)))))
      else ret None)"

definition format_data ::
  "config \<Rightarrow> globals \<Rightarrow> speaker_mapping \<Rightarrow> raw_batch \<Rightarrow> formatted act" where
  "format_data cfg g sm data =
     bind (speaker_conditioning cfg sm data) (\<lambda>speaker_c.
       ret \<lparr> f_text_input = to_device g (text_input data),
             f_text_lengths = to_device g (text_lengths data),
             f_mel_input = to_device g (map transpose (mel_input data)),
             f_mel_lengths = to_device g (mel_lengths data),
             f_speaker_c = map_option (to_device g) speaker_c,
             f_attn_mask = map_option (to_device g) (attn_mask data),
             f_item_idx = item_idx data \<rparr>)"


definition emits :: "event list \<Rightarrow> unit act" where
  "emits evs = (evs, Inr ())"

subsection \<open>The environment\<close>

text \<open>
  What the collaborators do is not decided by the script; it is read from an environment:
  the batches each pass of a loader yields, the loss terms the criterion computes, and for
  each call that the script guards or that may leave it, whether the call returns or raises.
  The calls that can raise are the forward pass of the model, the calls inside the two
  \<open>try\<close> blocks, \<open>torch.load\<close>, the opening of the file of test sentences and
  \<open>randrange\<close>; every other collaborator call is taken to return. Values that are
  floating-point numbers in the program (losses, averages, embeddings, waveforms) are
  rational numbers here.
\<close>

record loss_terms =
  l_loss :: rat
  l_log_mle :: rat
  l_loss_dur :: rat

record env =
  init_flows :: "flow list"
  batches :: "phase \<Rightarrow> raw_batch list"
  forward_exn :: "phase \<Rightarrow> nat \<Rightarrow> exn option"
  criterion_out :: "phase \<Rightarrow> nat \<Rightarrow> loss_terms"
  align_score :: "phase \<Rightarrow> nat \<Rightarrow> rat"
  reduced :: "phase \<Rightarrow> nat \<Rightarrow> string \<Rightarrow> rat"
  test_file :: "nat \<Rightarrow> exn + string list"
  randrange_pick :: "nat \<Rightarrow> nat"
  synthesis_out :: "nat \<Rightarrow> nat \<Rightarrow> exn + rat list"
  test_call_exn :: "nat \<Rightarrow> nat \<Rightarrow> string \<Rightarrow> exn option"
  speakers :: speaker_mapping
  checkpoint_file :: "exn + int"
  optimizer_load_exn :: "exn option"
  model_load_exn :: "exn option"
  set_init_dict_exn :: "exn option"
  partial_load_exn :: "exn option"
  best_file :: "exn + pyfloat"

subsection \<open>Library functions of Python\<close>

definition digit_char :: "nat \<Rightarrow> char" where
  "digit_char d = ''0123456789'' ! d"

fun str_nat :: "nat \<Rightarrow> string" where
  "str_nat n = (if n < 10 then [digit_char n] else str_nat (n div 10) @ [digit_char (n mod 10)])"

declare str_nat.simps [simp del]

text \<open>\<open>str(i)\<close> and \<open>"{}".format(i)\<close> of an integer.\<close>

definition str_int :: "int \<Rightarrow> string" where
  "str_int i = (if i < 0 then CHR ''-'' # str_nat (nat (- i)) else str_nat (nat i))"

text \<open>\<open>os.path.join(a, b)\<close> on POSIX.\<close>

definition path_join :: "string \<Rightarrow> string \<Rightarrow> string" where
  "path_join a b =
     (if b \<noteq> [] \<and> hd b = CHR ''/'' then b
      else if a = [] \<or> last a = CHR ''/'' then a @ b
      else a @ ''/'' @ b)"

definition is_space :: "char \<Rightarrow> bool" where
  "is_space c \<longleftrightarrow> c \<in> set [CHR '' '', CHR 0x09, CHR 0x0A, CHR 0x0B, CHR 0x0C, CHR 0x0D]"

text \<open>\<open>s.strip()\<close>, for the ASCII white space.\<close>

definition strip :: "string \<Rightarrow> string" where
  "strip s = rev (dropWhile is_space (rev (dropWhile is_space s)))"

text \<open>
  \<open>random.randrange(n)\<close>: an integer \<open>k\<close> with \<open>0 \<le> k < n\<close>, and \<open>ValueError\<close> when the
  range is empty. The number \<open>pick\<close> stands for the state of the generator.
\<close>

definition randrange :: "nat \<Rightarrow> int \<Rightarrow> nat act" where
  "randrange pick n =
     (if n \<le> 0 then call (Randrange n) (Inl (Exception ''ValueError''))
      else call (Randrange n) (Inr (pick mod nat n)))"

text \<open>\<open>a % b == 0\<close> on integers.\<close>

definition mod_is_zero :: "int \<Rightarrow> int \<Rightarrow> bool act" where
  "mod_is_zero a b = (if b = 0 then raise (Exception ''ZeroDivisionError'') else ret (a mod b = 0))"

subsection \<open>Running averages\<close>

text \<open>
  Modelled from the spec: \<open>KeepAverage\<close> of \<open>TTS.utils.generic_utils\<close>, a mapping from
  metric name to running mean, updated once per step; the values are taken exactly.
\<close>

type_synonym keep_average = "string \<Rightarrow> (rat \<times> nat) option"

definition update_value :: "keep_average \<Rightarrow> string \<Rightarrow> rat \<Rightarrow> keep_average" where
  "update_value ka name v =
     (case ka name of
        None \<Rightarrow> ka(name \<mapsto> (v, 1))
      | Some (m, n) \<Rightarrow> ka(name \<mapsto> ((m * of_nat n + v) / of_nat (Suc n), Suc n)))"

fun update_values :: "keep_average \<Rightarrow> (string \<times> rat) list \<Rightarrow> keep_average" where
  "update_values ka [] = ka"
| "update_values ka ((name, v) # kvs) = update_values (update_value ka name v) kvs"

definition avg_values :: "keep_average \<Rightarrow> string \<Rightarrow> rat option" where
  "avg_values ka name = map_option fst (ka name)"

text \<open>\<open>d[k]\<close> on the dict of averages.\<close>

definition avg_get :: "(string \<Rightarrow> rat option) \<Rightarrow> string \<Rightarrow> rat act" where
  "avg_get d k = (case d k of None \<Rightarrow> raise (Exception ''KeyError'') | Some v \<Rightarrow> ret v)"

text \<open>
  Modelled from the spec: \<open>save_best_model\<close> of \<open>TTS.tts.utils.io\<close> returns the updated
  best loss, keeping a strictly better one.
\<close>

definition save_best_model :: "pyfloat \<Rightarrow> pyfloat \<Rightarrow> pyfloat" where
  "save_best_model target_loss best_loss =
     (if float_less target_loss best_loss then target_loss else best_loss)"

subsection \<open>\<open>setup_loader\<close>\<close>

datatype sampler = DistributedSampler

record loader =
  l_is_val :: bool
  l_batch_size :: int
  l_sampler :: "sampler option"

definition setup_loader :: "config \<Rightarrow> globals \<Rightarrow> bool \<Rightarrow> loader option act" where
  "setup_loader cfg g is_val =
     (if is_val \<and> \<not> run_eval cfg then ret None
      else
        seq (emit (Call ''MyDataset''))
       (seq (if_then (use_phonemes cfg \<and> compute_input_seq_cache cfg)
               (emit (Call ''dataset.compute_input_seq'')))
       (seq (emit (Call ''dataset.sort_items''))
       (bind (if num_gpus g > 1 then seq (emit (Call ''DistributedSampler'')) (ret (Some DistributedSampler))
              else ret None) (\<lambda>sampler.
          let bs = (if is_val then eval_batch_size cfg else batch_size cfg) in
          seq (emit (DataLoader_new bs (sampler \<noteq> None)))
              (ret (Some \<lparr> l_is_val = is_val, l_batch_size = bs, l_sampler = sampler \<rparr>)))))))"

subsection \<open>\<open>data_depended_init\<close>\<close>

text \<open>
  Modelled from the spec: \<open>set_ddi(b)\<close> of a flow layer, defined with the layers, sets the
  data-dependent-init flag of the layer to \<open>b\<close>.
\<close>

definition set_ddi :: "bool \<Rightarrow> flow \<Rightarrow> flow" where
  "set_ddi b f = f\<lparr>ddi := b\<rparr>"

text \<open>
  The loop \<open>for f in flows: if getattr(f, "set_ddi", False): f.set_ddi(b)\<close>; \<open>i\<close> is the
  position of the layer.
\<close>

fun set_ddi_flows :: "bool \<Rightarrow> nat \<Rightarrow> flow list \<Rightarrow> flow list act" where
  "set_ddi_flows b i [] = ret []"
| "set_ddi_flows b i (f # fs) =
     (if has_set_ddi f then
        seq (emit (Set_ddi i b))
            (bind (set_ddi_flows b (Suc i) fs) (\<lambda>fs'. ret (set_ddi b f # fs')))
      else bind (set_ddi_flows b (Suc i) fs) (\<lambda>fs'. ret (f # fs')))"

definition set_ddi_model :: "bool \<Rightarrow> model \<Rightarrow> model act" where
  "set_ddi_model b m =
     (if has_module m then
        bind (set_ddi_flows b 0 (decoder_flows m)) (\<lambda>fs'. ret (Wrapped fs'))
      else
        bind (set_ddi_flows b 0 (decoder_flows m)) (\<lambda>fs'. ret (Plain fs')))"

text \<open>
  The warm-up loop, under \<open>torch.no_grad()\<close>: format, forward, then the test
  \<open>num_iter == config.data_dep_init_steps\<close> that breaks out, then the increment.
\<close>

fun ddi_loop ::
  "env \<Rightarrow> config \<Rightarrow> globals \<Rightarrow> speaker_mapping \<Rightarrow> model \<Rightarrow> nat \<Rightarrow> int \<Rightarrow> raw_batch list \<Rightarrow> unit act"
where
  "ddi_loop env cfg g sm m pos num_iter [] = ret ()"
| "ddi_loop env cfg g sm m pos num_iter (data # rest) =
     bind (format_data cfg g sm data) (\<lambda>b.
     seq (call_unit (Model_forward m False) (forward_exn env Init pos))
         (if num_iter = data_dep_init_steps cfg then ret ()
          else ddi_loop env cfg g sm m (Suc pos) (num_iter + 1) rest))"

definition data_depended_init ::
  "env \<Rightarrow> config \<Rightarrow> globals \<Rightarrow> speaker_mapping \<Rightarrow> model \<Rightarrow> model act" where
  "data_depended_init env cfg g sm m =
     bind (set_ddi_model True m) (\<lambda>m1.
     seq (emits [Call ''model.train'', Print '' > Data depended initialization ... ''])
    (seq (ddi_loop env cfg g sm m1 0 0 (batches env Init))
         (set_ddi_model False m1)))"


subsection \<open>\<open>train\<close>\<close>



definition backward_and_update :: "config \<Rightarrow> unit act" where
  "backward_and_update cfg =
     seq (if mixed_precision cfg then
            emits [Call ''scaler.scale(loss).backward'',
                   Call ''scaler.unscale_(optimizer)'',
                   Clip_grad_norm (grad_clip cfg),
                   Call ''scaler.step(optimizer)'',
                   Call ''scaler.update'']
          else
            emits [Call ''loss.backward'',
                   Clip_grad_norm (grad_clip cfg),
                   Call ''optimizer.step''])
         (if_then (noam_schedule cfg) (emit (Call ''scheduler.step'')))"

text \<open>The events of lines 207 to 221, among all events.\<close>

fun is_clip :: "event \<Rightarrow> bool" where
  "is_clip (Clip_grad_norm c) = True"
| "is_clip ev = False"

definition update_event :: "event \<Rightarrow> bool" where
  "update_event ev \<longleftrightarrow> is_clip ev \<or>
     ev \<in> set [Call ''scaler.scale(loss).backward'', Call ''loss.backward'',
               Call ''scaler.unscale_(optimizer)'', Call ''scaler.step(optimizer)'',
               Call ''scaler.update'', Call ''optimizer.step'', Call ''scheduler.step'']"

text \<open>
  The loss dict after the alignment error is added and, with several processes, after the
  three loss terms are replaced by their reduction across processes.
\<close>

definition aggregate_losses :: "env \<Rightarrow> globals \<Rightarrow> phase \<Rightarrow> nat \<Rightarrow> (string \<times> rat) list act" where
  "aggregate_losses env g ph i =
     (let c = criterion_out env ph i; align_error = 1 - align_score env ph i in
      if num_gpus g > 1 then
        seq (emits [Reduce_tensor ''log_mle'', Reduce_tensor ''loss_dur'', Reduce_tensor ''loss''])
            (ret [(''loss'', reduced env ph i ''loss''),
                  (''log_mle'', reduced env ph i ''log_mle''),
                  (''loss_dur'', reduced env ph i ''loss_dur''),
                  (''align_error'', align_error)])
      else
        ret [(''loss'', l_loss c), (''log_mle'', l_log_mle c), (''loss_dur'', l_loss_dur c),
             (''align_error'', align_error)])"

text \<open>\<open>loss_dict["loss"]\<close> after the aggregation.\<close>

definition aggregated_loss :: "env \<Rightarrow> globals \<Rightarrow> phase \<Rightarrow> nat \<Rightarrow> rat" where
  "aggregated_loss env g ph i =
     (if num_gpus g > 1 then reduced env ph i ''loss'' else l_loss (criterion_out env ph i))"

definition avg_keys :: "(string \<times> rat) list \<Rightarrow> (string \<times> rat) list" where
  "avg_keys loss_dict = map (\<lambda>(k, v). (''avg_'' @ k, v)) loss_dict"

definition inference_event :: "model \<Rightarrow> event" where
  "inference_event m =
     (if has_module m then Call ''model.module.inference'' else Call ''model.inference'')"

text \<open>The rank-0 part of a training step: iteration statistics, checkpoint, diagnostics.\<close>

definition train_step_rank0 ::
  "config \<Rightarrow> model \<Rightarrow> nat \<Rightarrow> int \<Rightarrow> rat \<Rightarrow> unit act" where
  "train_step_rank0 cfg m epoch global_step loss =
     bind (mod_is_zero global_step (tb_plot_step cfg)) (\<lambda>plot.
     seq (if_then plot (emit (Log ''tb_logger.tb_train_iter_stats'' global_step)))
    (bind (mod_is_zero global_step (save_step cfg)) (\<lambda>save.
       if_then save
        (seq (if_then (checkpoint cfg) (emit (Save_checkpoint global_step epoch loss)))
             (emits [Call ''torch.cuda.synchronize'',
                     inference_event m,
                     Call ''plot_spectrogram'',
                     Call ''plot_spectrogram'',
                     Call ''plot_alignment'',
                     Log ''tb_logger.tb_train_figures'' global_step,
                     Call ''ap.inv_melspectrogram'',
                     Log ''tb_logger.tb_train_audios'' global_step])))))"

text \<open>Lines 196 to 205: the gradients are zeroed, the forward pass, the loss.\<close>

definition forward_and_loss :: "env \<Rightarrow> model \<Rightarrow> nat \<Rightarrow> nat \<Rightarrow> unit act" where
  "forward_and_loss env m epoch num_iter =
     seq (emit (Call ''optimizer.zero_grad''))
    (seq (call_unit (Model_forward m True) (forward_exn env (Train epoch) num_iter))
         (emit (Call ''criterion'')))"

text \<open>
  Lines 223 to 317: alignment error, aggregation across processes, running averages,
  console and rank-0 output. The two timing averages are real time and are left out of
  the averages.
\<close>

definition train_step_report ::
  "env \<Rightarrow> config \<Rightarrow> globals \<Rightarrow> args \<Rightarrow> model \<Rightarrow> nat \<Rightarrow> nat \<Rightarrow> int \<Rightarrow> keep_average \<Rightarrow>
   keep_average act" where
  "train_step_report env cfg g a m epoch num_iter global_step keep_avg =
     seq (emit (Call ''alignment_diagonal_score''))
    (bind (aggregate_losses env g (Train epoch) num_iter) (\<lambda>loss_dict.
     bind (mod_is_zero global_step (print_step cfg)) (\<lambda>print.
     seq (if_then print (emit (Log ''c_logger.print_train_step'' global_step)))
    (seq (if_then (rank a = 0)
            (train_step_rank0 cfg m epoch global_step
               (aggregated_loss env g (Train epoch) num_iter)))
         (ret (update_values keep_avg (avg_keys loss_dict)))))))"

text \<open>
  One iteration of the loop of \<open>train\<close>, from the batch \<open>data\<close> at position \<open>num_iter\<close>:
  it returns the incremented global step and the updated averages.
\<close>

definition train_step ::
  "env \<Rightarrow> config \<Rightarrow> globals \<Rightarrow> args \<Rightarrow> speaker_mapping \<Rightarrow> model \<Rightarrow> nat \<Rightarrow> nat \<Rightarrow> raw_batch \<Rightarrow>
   int \<Rightarrow> keep_average \<Rightarrow> (int \<times> keep_average) act" where
  "train_step env cfg g a sm m epoch num_iter data global_step0 keep_avg =
     bind (format_data cfg g sm data) (\<lambda>b.
     let global_step = global_step0 + 1 in
     seq (forward_and_loss env m epoch num_iter)
    (seq (backward_and_update cfg)
    (bind (train_step_report env cfg g a m epoch num_iter global_step keep_avg) (\<lambda>ka.
       ret (global_step, ka)))))"

fun train_loop ::
  "env \<Rightarrow> config \<Rightarrow> globals \<Rightarrow> args \<Rightarrow> speaker_mapping \<Rightarrow> model \<Rightarrow> nat \<Rightarrow> nat \<Rightarrow>
   raw_batch list \<Rightarrow> int \<Rightarrow> keep_average \<Rightarrow> (int \<times> keep_average) act" where
  "train_loop env cfg g a sm m epoch num_iter [] global_step keep_avg = ret (global_step, keep_avg)"
| "train_loop env cfg g a sm m epoch num_iter (data # rest) global_step keep_avg =
     bind (train_step env cfg g a sm m epoch num_iter data global_step keep_avg) (\<lambda>(gs, ka).
       train_loop env cfg g a sm m epoch (Suc num_iter) rest gs ka)"

text \<open>
  \<open>batch_n_iter\<close> is the integer part of a quotient whose divisor is
  \<open>config.batch_size * num_gpus\<close> with the accelerator and \<open>config.batch_size\<close> without;
  only whether the division raises is kept.
\<close>

definition batch_n_iter_divisor :: "config \<Rightarrow> globals \<Rightarrow> int" where
  "batch_n_iter_divisor cfg g =
     (if use_cuda g then batch_size cfg * num_gpus g else batch_size cfg)"

definition train ::
  "env \<Rightarrow> config \<Rightarrow> globals \<Rightarrow> args \<Rightarrow> speaker_mapping \<Rightarrow> model \<Rightarrow> nat \<Rightarrow> int \<Rightarrow>
   ((string \<Rightarrow> rat option) \<times> int) act" where
  "train env cfg g a sm m epoch global_step =
     seq (emit (Call ''model.train''))
    (seq (if_then (batch_n_iter_divisor cfg g = 0) (raise (Exception ''ZeroDivisionError'')))
    (seq (emit (Call ''c_logger.print_train_start''))
    (seq (if_then (mixed_precision cfg) (emit (Call ''torch.cuda.amp.GradScaler'')))
    (bind (train_loop env cfg g a sm m epoch 0 (batches env (Train epoch)) global_step Map.empty)
       (\<lambda>(gs, keep_avg).
     seq (emit (Log ''c_logger.print_train_epoch_end'' gs))
    (seq (if_then (rank a = 0)
            (seq (emit (Log ''tb_logger.tb_train_epoch_stats'' gs))
                 (if_then (tb_model_param_stats cfg) (emit (Log ''tb_logger.tb_model_weights'' gs)))))
         (ret (avg_values keep_avg, gs))))))))"

subsection \<open>\<open>evaluate\<close>\<close>

text \<open>One iteration of the validation loop; the whole of \<open>evaluate\<close> runs without gradients.\<close>

definition eval_step ::
  "env \<Rightarrow> config \<Rightarrow> globals \<Rightarrow> speaker_mapping \<Rightarrow> model \<Rightarrow> nat \<Rightarrow> nat \<Rightarrow> raw_batch \<Rightarrow>
   keep_average \<Rightarrow> (keep_average \<times> formatted) act" where
  "eval_step env cfg g sm m epoch num_iter data keep_avg =
     bind (format_data cfg g sm data) (\<lambda>b.
     seq (call_unit (Model_forward m False) (forward_exn env (Eval epoch) num_iter))
    (seq (emits [Call ''criterion'', Call ''alignment_diagonal_score''])
    (bind (aggregate_losses env g (Eval epoch) num_iter) (\<lambda>loss_dict.
     let keep_avg' = update_values keep_avg (avg_keys loss_dict) in
     seq (if_then (print_eval cfg) (emit (Log ''c_logger.print_eval_step'' (int num_iter))))
         (ret (keep_avg', b))))))"

text \<open>The loop keeps the variables of its last iteration: \<open>last_b\<close> is \<open>None\<close> before the first.\<close>

fun eval_loop ::
  "env \<Rightarrow> config \<Rightarrow> globals \<Rightarrow> speaker_mapping \<Rightarrow> model \<Rightarrow> nat \<Rightarrow> nat \<Rightarrow> raw_batch list \<Rightarrow>
   keep_average \<Rightarrow> formatted option \<Rightarrow> (keep_average \<times> formatted option) act" where
  "eval_loop env cfg g sm m epoch num_iter [] keep_avg last_b = ret (keep_avg, last_b)"
| "eval_loop env cfg g sm m epoch num_iter (data # rest) keep_avg last_b =
     bind (eval_step env cfg g sm m epoch num_iter data keep_avg) (\<lambda>(ka, b).
       eval_loop env cfg g sm m epoch (Suc num_iter) rest ka (Some b))"

text \<open>
  The rank-0 diagnostics after the loop read \<open>speaker_c\<close> of the last iteration; after a
  loop that never ran the name is unbound (\<open>UnboundLocalError\<close> derives from \<open>Exception\<close>).
\<close>

definition eval_diagnostics :: "model \<Rightarrow> int \<Rightarrow> formatted option \<Rightarrow> unit act" where
  "eval_diagnostics m global_step last_b =
     (case last_b of
        None \<Rightarrow> raise (Exception ''UnboundLocalError'')
      | Some b \<Rightarrow>
          emits [inference_event m,
                 Call ''plot_spectrogram'',
                 Call ''plot_spectrogram'',
                 Call ''plot_alignment'',
                 Call ''ap.inv_melspectrogram'',
                 Log ''tb_logger.tb_eval_audios'' global_step,
                 Log ''tb_logger.tb_eval_stats'' global_step,
                 Log ''tb_logger.tb_eval_figures'' global_step])"

definition default_test_sentences :: "string list" where
  "default_test_sentences =
     [''It took me quite a long time to develop a voice, and now that I have it I'' @ [CHR 0x27] @
        ''m not going to be silent.'',
      ''Be a voice, not an echo.'',
      ''I'' @ [CHR 0x27] @ ''m so'' @ ''rry Dave. I'' @ [CHR 0x27] @ ''m afraid I can'' @ [CHR 0x27] @
        ''t do that.'',
      ''This cake is great. It'' @ [CHR 0x27] @ ''s so delicious and moist.'',
      ''Prior to November 22, 1963.'']"

definition load_test_sentences :: "env \<Rightarrow> config \<Rightarrow> nat \<Rightarrow> string list act" where
  "load_test_sentences env cfg epoch =
     (case test_sentences_file cfg of
        None \<Rightarrow> ret default_test_sentences
      | Some path \<Rightarrow>
          if path = [] then ret default_test_sentences
          else bind (call (Open_file path) (test_file env epoch)) (\<lambda>lines. ret (map strip lines)))"

text \<open>\<open>v["embedding"]\<close>: an integer cannot be subscripted.\<close>

definition embedding_of :: "speaker_val \<Rightarrow> rat list act" where
  "embedding_of v =
     (case v of IdVal i \<Rightarrow> raise (Exception ''TypeError'') | DictVal d \<Rightarrow> dict_get d ''embedding'')"

text \<open>
  The speaker of the test sentences, as \<open>(speaker_id, speaker_embedding)\<close>. In external
  mode: \<open>randrange(len(speaker_mapping) - 1)\<close>, then the key at that position, then the entry
  of that key, then its embedding.
\<close>

definition choose_test_speaker ::
  "env \<Rightarrow> config \<Rightarrow> speaker_mapping \<Rightarrow> nat \<Rightarrow> (int option \<times> rat list option) act" where
  "choose_test_speaker env cfg sm epoch =
     (if use_speaker_embedding cfg then
        (if use_external_speaker_embedding_file cfg then
           bind (randrange (randrange_pick env epoch) (int (length sm) - 1)) (\<lambda>k.
           bind (dict_get sm (map fst sm ! k)) (\<lambda>v.
           bind (embedding_of v) (\<lambda>emb. ret (None, Some emb))))
         else ret (Some 0, None))
      else ret (None, None))"

definition test_sentence_path :: "globals \<Rightarrow> int \<Rightarrow> nat \<Rightarrow> string" where
  "test_sentence_path g global_step idx =
     path_join (path_join (AUDIO_PATH g) (str_int global_step))
       (''TestSentence_'' @ str_nat idx @ ''.wav'')"

text \<open>The body of the \<open>try\<close> for one test sentence.\<close>

definition synth_sentence ::
  "env \<Rightarrow> globals \<Rightarrow> nat \<Rightarrow> int \<Rightarrow> (int option \<times> rat list option) \<Rightarrow> nat \<Rightarrow> string \<Rightarrow> unit act"
where
  "synth_sentence env g epoch global_step spk idx sentence =
     bind (call (Synthesis idx sentence (fst spk) (snd spk)) (synthesis_out env epoch idx)) (\<lambda>wav.
     seq (call_unit (Makedirs (path_join (AUDIO_PATH g) (str_int global_step)))
            (test_call_exn env epoch idx ''os.makedirs''))
    (seq (call_unit (Save_wav wav (test_sentence_path g global_step idx))
            (test_call_exn env epoch idx ''ap.save_wav''))
    (seq (call_unit (Call ''plot_spectrogram'') (test_call_exn env epoch idx ''plot_spectrogram''))
         (call_unit (Call ''plot_alignment'') (test_call_exn env epoch idx ''plot_alignment'')))))"

definition log_test_error :: "nat \<Rightarrow> exn \<Rightarrow> unit act" where
  "log_test_error idx e =
     emits [Print ('' !! Error creating Test Sentence - '' @ str_nat idx),
            Call ''traceback.print_exc'']"

fun synth_loop ::
  "env \<Rightarrow> globals \<Rightarrow> nat \<Rightarrow> int \<Rightarrow> (int option \<times> rat list option) \<Rightarrow> nat \<Rightarrow> string list \<Rightarrow> unit act"
where
  "synth_loop env g epoch global_step spk idx [] = ret ()"
| "synth_loop env g epoch global_step spk idx (sentence # rest) =
     seq (try_except (synth_sentence env g epoch global_step spk idx sentence) (log_test_error idx))
         (synth_loop env g epoch global_step spk (Suc idx) rest)"

definition synthesize_test_sentences ::
  "env \<Rightarrow> config \<Rightarrow> globals \<Rightarrow> speaker_mapping \<Rightarrow> nat \<Rightarrow> int \<Rightarrow> unit act" where
  "synthesize_test_sentences env cfg g sm epoch global_step =
     bind (load_test_sentences env cfg epoch) (\<lambda>test_sentences.
     seq (emit (Print '' | > Synthesizing test sentences''))
    (bind (choose_test_speaker env cfg sm epoch) (\<lambda>spk.
     seq (synth_loop env g epoch global_step spk 0 test_sentences)
         (emits [Log ''tb_logger.tb_test_audios'' global_step,
                 Log ''tb_logger.tb_test_figures'' global_step]))))"

definition validation_pass ::
  "env \<Rightarrow> config \<Rightarrow> globals \<Rightarrow> args \<Rightarrow> speaker_mapping \<Rightarrow> model \<Rightarrow> loader option \<Rightarrow> nat \<Rightarrow> int \<Rightarrow>
   keep_average act" where
  "validation_pass env cfg g a sm m data_loader epoch global_step =
     (case data_loader of
        None \<Rightarrow> ret Map.empty
      | Some l \<Rightarrow>
          bind (eval_loop env cfg g sm m epoch 0 (batches env (Eval epoch)) Map.empty None)
            (\<lambda>(keep_avg, last_b).
          seq (if_then (rank a = 0) (eval_diagnostics m global_step last_b))
              (ret keep_avg)))"

definition evaluate ::
  "env \<Rightarrow> config \<Rightarrow> globals \<Rightarrow> args \<Rightarrow> speaker_mapping \<Rightarrow> model \<Rightarrow> loader option \<Rightarrow> nat \<Rightarrow> int \<Rightarrow>
   (string \<Rightarrow> rat option) act" where
  "evaluate env cfg g a sm m data_loader epoch global_step =
     seq (emits [Call ''model.eval'', Call ''c_logger.print_eval_start''])
    (bind (validation_pass env cfg g a sm m data_loader epoch global_step) (\<lambda>keep_avg.
     seq (if_then (rank a = 0 \<and> int epoch \<ge> test_delay_epochs cfg)
            (synthesize_test_sentences env cfg g sm epoch global_step))
         (ret (avg_values keep_avg))))"


subsection \<open>\<open>main\<close>\<close>

text \<open>\<open>os.path.basename\<close> on POSIX.\<close>

definition basename :: "string \<Rightarrow> string" where
  "basename path = rev (takeWhile (\<lambda>c. c \<noteq> CHR ''/'') (rev path))"

text \<open>
  Lines 505 to 525; the value is the step \<open>args.restore_step\<close> is set to. Of the
  checkpoint file only the stored step is kept.
\<close>

definition full_restore :: "env \<Rightarrow> unit act" where
  "full_restore env =
     seq (call_unit (Call ''optimizer.load_state_dict'') (optimizer_load_exn env))
         (call_unit (Call ''model.load_state_dict'') (model_load_exn env))"

definition partial_restore :: "env \<Rightarrow> exn \<Rightarrow> unit act" where
  "partial_restore env e =
     seq (emits [Print '' > Partial model initialization.'', Call ''model.state_dict''])
    (seq (call_unit (Call ''set_init_dict'') (set_init_dict_exn env))
         (call_unit (Call ''model.load_state_dict(model_dict)'') (partial_load_exn env)))"

definition restore_checkpoint :: "env \<Rightarrow> args \<Rightarrow> int act" where
  "restore_checkpoint env a =
     (if truthy (restore_path a) then
        (case restore_path a of
           None \<Rightarrow> ret 0
         | Some path \<Rightarrow>
             seq (emit (Print ('' > Restoring from '' @ basename path @ '' ...'')))
            (bind (call (Torch_load path) (checkpoint_file env)) (\<lambda>step.
             seq (try_except (full_restore env) (partial_restore env))
            (seq (emits [Call ''optimizer.param_groups'',
                         Print ('' > Model restored from step '' @ str_int step)])
                 (ret step)))))
      else ret 0)"

text \<open>Lines 543 to 549: the best loss training starts with.\<close>

definition init_best_loss :: "env \<Rightarrow> args \<Rightarrow> int \<Rightarrow> pyfloat act" where
  "init_best_loss env a restore_step =
     (if restore_step = 0 \<or> \<not> truthy (best_path a) then
        seq (emit (Print '' > Starting with inf best loss.'')) (ret PosInf)
      else
        (case best_path a of
           None \<Rightarrow> seq (emit (Print '' > Starting with inf best loss.'')) (ret PosInf)
         | Some path \<Rightarrow>
             seq (emit (Print ('' > Restoring best loss from '' @ basename path @ '' ...'')))
            (bind (call (Torch_load path) (best_file env)) (\<lambda>best_loss.
             seq (emit (Print '' > Starting with loaded last best loss.''))
                 (ret best_loss)))))"

text \<open>Lines 566 to 568: the loss handed to the selection of the best model.\<close>

definition select_target_loss ::
  "config \<Rightarrow> (string \<Rightarrow> rat option) \<Rightarrow> (string \<Rightarrow> rat option) \<Rightarrow> rat act" where
  "select_target_loss cfg train_avg_loss_dict eval_avg_loss_dict =
     bind (avg_get train_avg_loss_dict ''avg_loss'') (\<lambda>target_loss.
       if run_eval cfg then avg_get eval_avg_loss_dict ''avg_loss'' else ret target_loss)"

text \<open>The body of the loop over the epochs: it returns the global step and the best loss.\<close>

definition run_epoch ::
  "env \<Rightarrow> config \<Rightarrow> globals \<Rightarrow> args \<Rightarrow> speaker_mapping \<Rightarrow> model \<Rightarrow> loader option \<Rightarrow> nat \<Rightarrow>
   int \<Rightarrow> pyfloat \<Rightarrow> (int \<times> pyfloat) act" where
  "run_epoch env cfg g a sm m eval_loader epoch global_step0 best_loss =
     seq (emit (Log ''c_logger.print_epoch_start'' (int epoch)))
    (bind (train env cfg g a sm m epoch global_step0) (\<lambda>(train_avg_loss_dict, global_step).
     bind (evaluate env cfg g a sm m eval_loader epoch global_step) (\<lambda>eval_avg_loss_dict.
     seq (emit (Log ''c_logger.print_epoch_end'' (int epoch)))
    (bind (select_target_loss cfg train_avg_loss_dict eval_avg_loss_dict) (\<lambda>target_loss.
     seq (emit (Save_best_model (Fin target_loss) best_loss global_step epoch))
         (ret (global_step, save_best_model (Fin target_loss) best_loss)))))))"

fun epoch_loop ::
  "env \<Rightarrow> config \<Rightarrow> globals \<Rightarrow> args \<Rightarrow> speaker_mapping \<Rightarrow> model \<Rightarrow> loader option \<Rightarrow> nat list \<Rightarrow>
   int \<Rightarrow> pyfloat \<Rightarrow> unit act" where
  "epoch_loop env cfg g a sm m eval_loader [] global_step best_loss = ret ()"
| "epoch_loop env cfg g a sm m eval_loader (epoch # rest) global_step best_loss =
     bind (run_epoch env cfg g a sm m eval_loader epoch global_step best_loss) (\<lambda>(gs, best).
       epoch_loop env cfg g a sm m eval_loader rest gs best)"

text \<open>\<open>main\<close> from line 527 on, once \<open>args.restore_step\<close> is set.\<close>

definition main_after_restore :: "env \<Rightarrow> config \<Rightarrow> globals \<Rightarrow> args \<Rightarrow> int \<Rightarrow> unit act" where
  "main_after_restore env cfg g a restore_step =
     seq (if_then (use_cuda g) (emits [Call ''model.cuda'', Call ''criterion.cuda'']))
    (seq (if_then (num_gpus g > 1) (emit (Call ''DDP_th'')))
    (seq (if_then (noam_schedule cfg) (emit (NoamLR_new (restore_step - 1))))
    (seq (emits [Call ''count_parameters'', Print '' > Model has parameters''])
    (bind (init_best_loss env a restore_step) (\<lambda>best_loss.
     bind (setup_loader cfg g False) (\<lambda>train_loader.
     bind (setup_loader cfg g True) (\<lambda>eval_loader.
     bind (data_depended_init env cfg g (speakers env)
             (if num_gpus g > 1 then Wrapped (init_flows env) else Plain (init_flows env))) (\<lambda>m.
       epoch_loop env cfg g a (speakers env) m eval_loader [0..<nat (epochs cfg)]
         restore_step best_loss))))))))"

text \<open>\<open>main\<close> up to line 503: the collaborators are built.\<close>

definition main_setup :: "config \<Rightarrow> globals \<Rightarrow> unit act" where
  "main_setup cfg g =
     seq (emit (Call ''AudioProcessor''))
    (seq (if_then (has_characters cfg) (emit (Call ''make_symbols'')))
    (seq (if_then (num_gpus g > 1) (emit (Call ''init_distributed'')))
         (emits [Call ''load_meta_data'', Call ''parse_speakers'', Call ''setup_model'',
                 Call ''RAdam'', Call ''GlowTTSLoss''])))"

definition main :: "env \<Rightarrow> config \<Rightarrow> globals \<Rightarrow> args \<Rightarrow> unit act" where
  "main env cfg g a =
     seq (main_setup cfg g)
         (bind (restore_checkpoint env a) (\<lambda>restore_step.
            main_after_restore env cfg g a restore_step))"

subsection \<open>The script\<close>

text \<open>
  Modelled from the spec: \<open>remove_experiment_folder\<close> of \<open>TTS.utils.generic_utils\<close>, the
  cleanup of the experiment output directory: the directory at the path is removed, which
  is the event \<open>Remove_experiment_folder\<close>.
\<close>

definition remove_experiment_folder :: "string \<Rightarrow> event list" where
  "remove_experiment_folder path = [Remove_experiment_folder path]"

text \<open>
  Lines 587 to 598 around an act for \<open>main(args)\<close>: the events of the process and its exit
  status. An exception that neither handler catches ends the interpreter: a \<open>SystemExit\<close>
  with its own status.
\<close>

definition run_script :: "globals \<Rightarrow> unit act \<Rightarrow> event list \<times> int" where
  "run_script g m =
     (case m of
        (t, Inr u) \<Rightarrow> (t, 0)
      | (t, Inl KeyboardInterrupt) \<Rightarrow>
          (t @ remove_experiment_folder (OUT_PATH g) @ [Sys_exit 0, Os_exit 0], 0)
      | (t, Inl (Exception n)) \<Rightarrow>
          (t @ remove_experiment_folder (OUT_PATH g) @
             [Call ''traceback.print_exc'', Sys_exit 1], 1)
      | (t, Inl (SystemExit c)) \<Rightarrow> (t, c))"

definition script :: "env \<Rightarrow> config \<Rightarrow> globals \<Rightarrow> args \<Rightarrow> event list \<times> int" where
  "script env cfg g a = run_script g (main env cfg g a)"

subsection \<open>Classes of events\<close>

fun is_reduce :: "event \<Rightarrow> bool" where
  "is_reduce (Reduce_tensor n) = True"
| "is_reduce ev = False"

definition is_sampler :: "event \<Rightarrow> bool" where
  "is_sampler ev \<longleftrightarrow> ev = Call ''DistributedSampler''"

fun is_forward :: "event \<Rightarrow> bool" where
  "is_forward (Model_forward m grad) = True"
| "is_forward ev = False"

fun is_test_event :: "event \<Rightarrow> bool" where
  "is_test_event (Synthesis idx s spk emb) = True"
| "is_test_event (Makedirs p) = True"
| "is_test_event (Save_wav w p) = True"
| "is_test_event ev = False"

fun is_script_event :: "event \<Rightarrow> bool" where
  "is_script_event (Save_best_model t b s e) = True"
| "is_script_event (Remove_experiment_folder p) = True"
| "is_script_event (Sys_exit c) = True"
| "is_script_event (Os_exit c) = True"
| "is_script_event ev = False"


fun is_exit_event :: "event \<Rightarrow> bool" where
  "is_exit_event (Remove_experiment_folder p) = True"
| "is_exit_event (Sys_exit c) = True"
| "is_exit_event (Os_exit c) = True"
| "is_exit_event ev = False"

section \<open>Example runs\<close>

text \<open>A small configuration, a batch of two items and a mapping of two speakers to ids.\<close>

definition ex_config :: config where
  "ex_config = \<lparr> run_eval = False, batch_size = 2, eval_batch_size = 2, use_phonemes = False,
     compute_input_seq_cache = False, use_speaker_embedding = False,
     use_external_speaker_embedding_file = False, data_dep_init_steps = 1,
     mixed_precision = False, grad_clip = 5, noam_schedule = True, print_step = 1,
     tb_plot_step = 1, save_step = 1, checkpoint = True, tb_model_param_stats = False,
     print_eval = False, test_delay_epochs = 0, test_sentences_file = Some ''sentences.txt'',
     has_characters = False, epochs = 1 \<rparr>"

definition ex_globals :: globals where
  "ex_globals = \<lparr> use_cuda = False, num_gpus = 1, OUT_PATH = ''out'', AUDIO_PATH = ''out/test_audios'' \<rparr>"

definition ex_batch :: raw_batch where
  "ex_batch = \<lparr> text_input = [ [1, 2], [3, 0] ], text_lengths = [2, 1],
     speaker_names = [''anna'', ''ben''], mel_input = [ [ [1], [2] ], [ [3], [0] ] ],
     mel_lengths = [2, 1], item_idx = [''a.wav'', ''b.wav''],
     speaker_embeddings = None, attn_mask = None \<rparr>"

definition ex_speaker_ids :: speaker_mapping where
  "ex_speaker_ids = [(''anna'', IdVal 0), (''ben'', IdVal 1)]"


definition ex_env :: env where
  "ex_env = \<lparr> init_flows = [\<lparr>has_set_ddi = True, ddi = False\<rparr>, \<lparr>has_set_ddi = False, ddi = False\<rparr>],
     batches = (\<lambda>ph. [ex_batch]),
     forward_exn = (\<lambda>ph i. None),
     criterion_out = (\<lambda>ph i. \<lparr>l_loss = 3, l_log_mle = 2, l_loss_dur = 1\<rparr>),
     align_score = (\<lambda>ph i. 1),
     reduced = (\<lambda>ph i n. 0),
     test_file = (\<lambda>epoch. Inr [''Hello.'']),
     randrange_pick = (\<lambda>epoch. 0),
     synthesis_out = (\<lambda>epoch idx. Inr [0, 1]),
     test_call_exn = (\<lambda>epoch idx n. None),
     speakers = ex_speaker_ids,
     checkpoint_file = Inr 100,
     optimizer_load_exn = None,
     model_load_exn = None,
     set_init_dict_exn = None,
     partial_load_exn = None,
     best_file = Inr (Fin 1) \<rparr>"

definition ex_args :: args where
  "ex_args = \<lparr> rank = 0, restore_path = None, best_path = None \<rparr>"


definition ex_three_batches_env :: env where
  "ex_three_batches_env = ex_env\<lparr>batches := (\<lambda>ph. [ex_batch, ex_batch, ex_batch])\<rparr>"

definition ex_failing_env :: env where
  "ex_failing_env = ex_env\<lparr>synthesis_out :=
     (\<lambda>epoch idx. if idx = 0 then Inl KeyboardInterrupt else Inr [0, 1])\<rparr>"

definition ex_ext_config :: config where
  "ex_ext_config = ex_config\<lparr>use_speaker_embedding := True,
     use_external_speaker_embedding_file := True\<rparr>"

definition ex_embeddings :: speaker_mapping where
  "ex_embeddings = [(''a.wav'', DictVal [(''embedding'', [1, 2])]),
                    (''b.wav'', DictVal [(''embedding'', [3, 4])]),
                    (''c.wav'', DictVal [(''embedding'', [5, 6])])]"

definition ex_one_speaker :: speaker_mapping where
  "ex_one_speaker = [(''a.wav'', DictVal [(''embedding'', [1, 2])])]"

definition ex_pick_env :: env where
  "ex_pick_env = ex_env\<lparr>randrange_pick := (\<lambda>epoch. 5)\<rparr>"



definition ex_interrupted_env :: env where
  "ex_interrupted_env = ex_failing_env\<lparr>test_file := (\<lambda>epoch. Inr [''Hello.'', ''Bye.''])\<rparr>"

definition ex_interrupted_training_env :: env where
  "ex_interrupted_training_env = ex_env\<lparr>forward_exn :=
     (\<lambda>ph i. if ph = Train 0 then Some KeyboardInterrupt else None)\<rparr>"

definition ex_crashing_env :: env where
  "ex_crashing_env = ex_env\<lparr>forward_exn :=
     (\<lambda>ph i. if ph = Train 0 then Some (Exception ''RuntimeError'') else None)\<rparr>"

definition ex_exiting_env :: env where
  "ex_exiting_env = ex_env\<lparr>forward_exn :=
     (\<lambda>ph i. if ph = Train 0 then Some (SystemExit 3) else None)\<rparr>"

section \<open>Properties\<close>

subsection \<open>Acts\<close>

lemma result_ret [simp]: "result (ret v) = Inr v" and trace_ret [simp]: "trace (ret v) = []"
  by (simp_all add: result_def trace_def ret_def)

lemma result_raise [simp]: "result (raise e) = Inl e"
  by (simp add: result_def raise_def)

lemma result_bind: "result (bind m f) = (case result m of Inl e \<Rightarrow> Inl e | Inr v \<Rightarrow> result (f v))"
  by (auto simp: result_def bind_def split: prod.splits sum.splits)

lemma trace_bind: "trace (bind m f) = (case result m of Inl e \<Rightarrow> trace m | Inr v \<Rightarrow> trace m @ trace (f v))"
  by (auto simp: result_def trace_def bind_def split: prod.splits sum.splits)

lemma returns_result: "returns m \<longleftrightarrow> (\<exists>v. result m = Inr v)"
  by (auto simp: returns_def result_def split: sum.splits)

lemma trace_emit [simp]: "trace (emit ev) = [ev]" and result_emit [simp]: "result (emit ev) = Inr ()"
  by (simp_all add: trace_def result_def emit_def)

lemma trace_emits [simp]: "trace (emits evs) = evs" and result_emits [simp]: "result (emits evs) = Inr ()"
  by (simp_all add: trace_def result_def emits_def)

lemma trace_raise [simp]: "trace (raise e) = [Raised e]"
  by (simp add: trace_def raise_def)

lemma result_seq: "result (seq m k) = (case result m of Inl e \<Rightarrow> Inl e | Inr v \<Rightarrow> result k)"
  by (simp add: seq_def result_bind)

lemma trace_seq: "trace (seq m k) = (case result m of Inl e \<Rightarrow> trace m | Inr v \<Rightarrow> trace m @ trace k)"
  by (simp add: seq_def trace_bind)

lemma result_call_unit: "result (call_unit ev out) = (case out of None \<Rightarrow> Inr () | Some e \<Rightarrow> Inl e)"
  by (simp add: call_unit_def result_def split: option.splits)

lemma trace_call_unit: "trace (call_unit ev out) = (case out of None \<Rightarrow> [ev] | Some e \<Rightarrow> [ev, Raised e])"
  by (simp add: call_unit_def trace_def split: option.splits)

lemma result_call: "result (call ev out) = out"
  by (simp add: call_def result_def split: sum.splits)

lemma trace_call: "trace (call ev out) = (case out of Inr v \<Rightarrow> [ev] | Inl e \<Rightarrow> [ev, Raised e])"
  by (simp add: call_def trace_def split: sum.splits)

lemma result_if_then: "result (if_then c m) = (if c then result m else Inr ())"
  by (simp add: if_then_def)

lemma trace_if_then: "trace (if_then c m) = (if c then trace m else [])"
  by (simp add: if_then_def)

lemma never_ret [simp]: "never P (ret v)"
  by (simp add: never_def)

lemma never_emit [simp]: "never P (emit ev) \<longleftrightarrow> \<not> P ev"
  by (simp add: never_def)

lemma never_emits [simp]: "never P (emits evs) \<longleftrightarrow> (\<forall>ev \<in> set evs. \<not> P ev)"
  by (simp add: never_def list_all_iff)

lemma never_raise [simp]: "never P (raise e) \<longleftrightarrow> \<not> P (Raised e)"
  by (simp add: never_def)

lemma never_call_unit: "\<not> P ev \<Longrightarrow> (\<And>e. \<not> P (Raised e)) \<Longrightarrow> never P (call_unit ev out)"
  by (simp add: never_def trace_call_unit split: option.splits)

lemma never_call: "\<not> P ev \<Longrightarrow> (\<And>e. \<not> P (Raised e)) \<Longrightarrow> never P (call ev out)"
  by (simp add: never_def trace_call split: sum.splits)

lemma never_bind: "never P m \<Longrightarrow> (\<And>v. never P (f v)) \<Longrightarrow> never P (bind m f)"
  by (simp add: never_def trace_bind split: sum.splits)

lemma never_seq: "never P m \<Longrightarrow> never P k \<Longrightarrow> never P (seq m k)"
  by (simp add: seq_def never_bind)

lemma never_if_then: "(c \<Longrightarrow> never P m) \<Longrightarrow> never P (if_then c m)"
  by (simp add: if_then_def)

lemma result_try_except:
  "result (try_except m h) = (case result m of Inl e \<Rightarrow> result (h e) | Inr v \<Rightarrow> Inr v)"
  by (auto simp: result_def try_except_def split: prod.splits sum.splits)

lemma trace_try_except:
  "trace (try_except m h) = (case result m of Inl e \<Rightarrow> trace m @ trace (h e) | Inr v \<Rightarrow> trace m)"
  by (auto simp: result_def trace_def try_except_def split: prod.splits sum.splits)

lemma never_try_except: "never P m \<Longrightarrow> (\<And>e. never P (h e)) \<Longrightarrow> never P (try_except m h)"
  by (simp add: never_def trace_try_except split: sum.splits)

lemma never_filter: "never P m \<Longrightarrow> filter P (trace m) = []"
  by (simp add: never_def list_all_iff filter_empty_conv)

lemma never_set: "never P m \<Longrightarrow> P ev \<Longrightarrow> ev \<notin> set (trace m)"
  by (auto simp: never_def list_all_iff)


lemmas never_intros =
  never_bind never_seq never_if_then never_call_unit never_call never_try_except

subsection \<open>The speaker conditioning of \<open>format_data\<close>\<close>

lemma lookup_speakers_sound:
  "result (lookup_speakers sm ns) = Inr vs \<Longrightarrow> map (map_of sm) ns = map Some vs"
  by (induction ns arbitrary: vs)
     (auto simp: result_bind dict_get_def split: sum.splits option.splits)

lemma lookup_speakers_complete:
  "map (map_of sm) ns = map Some vs \<Longrightarrow> result (lookup_speakers sm ns) = Inr vs"
  by (induction ns arbitrary: vs)
     (auto simp: result_bind dict_get_def split: sum.splits option.splits)

lemma long_tensor_sound: "result (long_tensor vs) = Inr is \<Longrightarrow> vs = map IdVal is"
  by (induction vs arbitrary: "is" rule: long_tensor.induct)
     (auto simp: result_bind split: sum.splits)

lemma long_tensor_complete: "result (long_tensor (map IdVal is)) = Inr is"
  by (induction "is") (auto simp: result_bind split: sum.splits)

lemma speaker_conditioning_ids:
  assumes "use_speaker_embedding cfg" "\<not> use_external_speaker_embedding_file cfg"
  shows "result (speaker_conditioning cfg sm data) = Inr c \<longleftrightarrow>
         (\<exists>is. c = Some (SpeakerIds is) \<and> map (map_of sm) (speaker_names data) = map (\<lambda>i. Some (IdVal i)) is)"
proof
  assume "result (speaker_conditioning cfg sm data) = Inr c"
  then obtain vs "is" where "result (lookup_speakers sm (speaker_names data)) = Inr vs"
    "result (long_tensor vs) = Inr is" "c = Some (SpeakerIds is)"
    using assms by (auto simp: speaker_conditioning_def result_bind split: sum.splits)
  then show "\<exists>is. c = Some (SpeakerIds is) \<and> map (map_of sm) (speaker_names data) = map (\<lambda>i. Some (IdVal i)) is"
    using lookup_speakers_sound long_tensor_sound by fastforce
next
  assume "\<exists>is. c = Some (SpeakerIds is) \<and> map (map_of sm) (speaker_names data) = map (\<lambda>i. Some (IdVal i)) is"
  then obtain "is" where c: "c = Some (SpeakerIds is)"
    and m: "map (map_of sm) (speaker_names data) = map Some (map IdVal is)" by auto
  from lookup_speakers_complete[OF m] long_tensor_complete[of "is"] c
  show "result (speaker_conditioning cfg sm data) = Inr c"
    using assms by (simp add: speaker_conditioning_def result_bind)
qed


lemma result_format_data:
  "result (format_data cfg g sm data) = Inr r \<Longrightarrow>
     \<exists>c. result (speaker_conditioning cfg sm data) = Inr c \<and> f_speaker_c r = map_option (to_device g) c"
  by (auto simp: format_data_def result_bind split: sum.splits)

lemma returns_format_data:
  "returns (format_data cfg g sm data) \<longleftrightarrow> returns (speaker_conditioning cfg sm data)"
  by (auto simp: format_data_def result_bind returns_result split: sum.splits)

lemma tensor_data_to_device [simp]: "tensor_data (to_device g v) = v"
  by (simp add: to_device_def)

lemma all_ids_iff:
  "(\<exists>is. map (map_of sm) ns = map (\<lambda>i. Some (IdVal i)) is) \<longleftrightarrow>
   (\<forall>n \<in> set ns. \<exists>i. map_of sm n = Some (IdVal i))"
proof (induction ns)
  case Nil
  show ?case by simp
next
  case (Cons n ns)
  show ?case
  proof
    assume "\<exists>is. map (map_of sm) (n # ns) = map (\<lambda>i. Some (IdVal i)) is"
    then obtain "is" where e: "map (map_of sm) (n # ns) = map (\<lambda>i. Some (IdVal i)) is" ..
    then obtain i js where "is = i # js" by (cases "is") auto
    with e Cons.IH show "\<forall>n \<in> set (n # ns). \<exists>i. map_of sm n = Some (IdVal i)" by auto
  next
    assume a: "\<forall>n \<in> set (n # ns). \<exists>i. map_of sm n = Some (IdVal i)"
    then obtain i where i: "map_of sm n = Some (IdVal i)" by auto
    from a Cons.IH obtain js where "map (map_of sm) ns = map (\<lambda>i. Some (IdVal i)) js" by auto
    with i have "map (map_of sm) (n # ns) = map (\<lambda>i. Some (IdVal i)) (i # js)" by simp
    then show "\<exists>is. map (map_of sm) (n # ns) = map (\<lambda>i. Some (IdVal i)) is" ..
  qed
qed

text \<open>
  Claim C4. For a batch that satisfies the batch invariant (and, in external-embedding
  mode, carries the precomputed embeddings), \<open>format_data\<close> returns unless in id mode a
  speaker name has no integer id in the mapping. The speaker conditioning it returns is
  \<open>None\<close> exactly when \<open>use_speaker_embedding\<close> is off; it is the embedding tensor
  of the batch in external mode, and in id mode the tensor of the ids the mapping gives
  the speaker names, in order; its first dimension is the batch size.
\<close>

theorem format_data_speaker_conditioning:
  assumes wf: "wf_batch data"
    and ext: "use_speaker_embedding cfg \<and> use_external_speaker_embedding_file cfg \<longrightarrow>
              speaker_embeddings data \<noteq> None"
  shows "(returns (format_data cfg g sm data) \<longleftrightarrow>
            (use_speaker_embedding cfg \<and> \<not> use_external_speaker_embedding_file cfg \<longrightarrow>
               (\<forall>n \<in> set (speaker_names data). \<exists>i. map_of sm n = Some (IdVal i)))) \<and>
         (\<forall>r. result (format_data cfg g sm data) = Inr r \<longrightarrow>
            (f_speaker_c r = None \<longleftrightarrow> \<not> use_speaker_embedding cfg) \<and>
            (use_speaker_embedding cfg \<and> use_external_speaker_embedding_file cfg \<longrightarrow>
               map_option tensor_data (f_speaker_c r) =
                 map_option Embeddings (speaker_embeddings data)) \<and>
            (use_speaker_embedding cfg \<and> \<not> use_external_speaker_embedding_file cfg \<longrightarrow>
               (\<exists>is. map_option tensor_data (f_speaker_c r) = Some (SpeakerIds is) \<and>
                     map (map_of sm) (speaker_names data) = map (\<lambda>i. Some (IdVal i)) is)) \<and>
            (\<forall>c. map_option tensor_data (f_speaker_c r) = Some c \<longrightarrow>
                 speaker_batch_dim c = batch_dim data))"
proof (intro conjI allI impI)
  show "returns (format_data cfg g sm data) \<longleftrightarrow>
          (use_speaker_embedding cfg \<and> \<not> use_external_speaker_embedding_file cfg \<longrightarrow>
             (\<forall>n \<in> set (speaker_names data). \<exists>i. map_of sm n = Some (IdVal i)))"
  proof (cases "use_speaker_embedding cfg \<and> \<not> use_external_speaker_embedding_file cfg")
    case True
    then have "returns (speaker_conditioning cfg sm data) \<longleftrightarrow>
        (\<exists>is. map (map_of sm) (speaker_names data) = map (\<lambda>i. Some (IdVal i)) is)"
      using speaker_conditioning_ids[of cfg sm data] unfolding returns_result by blast
    with True show ?thesis
      unfolding returns_format_data all_ids_iff by simp
  next
    case False
    then have "returns (speaker_conditioning cfg sm data)"
      unfolding returns_result by (auto simp: speaker_conditioning_def)
    with False show ?thesis
      unfolding returns_format_data by blast
  qed
next
  fix r
  assume r: "result (format_data cfg g sm data) = Inr r"
  then obtain c where c: "result (speaker_conditioning cfg sm data) = Inr c"
    and fc: "f_speaker_c r = map_option (to_device g) c"
    using result_format_data by blast
  have td: "map_option tensor_data (f_speaker_c r) = c"
    by (simp add: fc option.map_comp comp_def option.map_ident)
  show "f_speaker_c r = None \<longleftrightarrow> \<not> use_speaker_embedding cfg"
  proof (cases "use_speaker_embedding cfg")
    case False
    with c fc show ?thesis by (simp add: speaker_conditioning_def)
  next
    case True
    show ?thesis
    proof (cases "use_external_speaker_embedding_file cfg")
      case True
      with \<open>use_speaker_embedding cfg\<close> c fc ext show ?thesis
        by (auto simp: speaker_conditioning_def)
    next
      case False
      with \<open>use_speaker_embedding cfg\<close> c fc speaker_conditioning_ids[of cfg sm data c]
      show ?thesis by auto
    qed
  qed
  {
    assume "use_speaker_embedding cfg \<and> use_external_speaker_embedding_file cfg"
    with c td show "map_option tensor_data (f_speaker_c r) =
                 map_option Embeddings (speaker_embeddings data)"
      by (simp add: speaker_conditioning_def)
  }
  {
    assume "use_speaker_embedding cfg \<and> \<not> use_external_speaker_embedding_file cfg"
    with c td speaker_conditioning_ids[of cfg sm data c]
    show "\<exists>is. map_option tensor_data (f_speaker_c r) = Some (SpeakerIds is) \<and>
                     map (map_of sm) (speaker_names data) = map (\<lambda>i. Some (IdVal i)) is"
      by auto
  }
  {
    fix c'
    assume "map_option tensor_data (f_speaker_c r) = Some c'"
    with td have cc: "c = Some c'" by simp
    show "speaker_batch_dim c' = batch_dim data"
    proof (cases "use_speaker_embedding cfg")
      case False
      with c cc show ?thesis by (simp add: speaker_conditioning_def)
    next
      case True
      show ?thesis
      proof (cases "use_external_speaker_embedding_file cfg")
        case True
        with \<open>use_speaker_embedding cfg\<close> c cc wf show ?thesis
          by (auto simp: speaker_conditioning_def wf_batch_def split: option.splits)
      next
        case False
        with \<open>use_speaker_embedding cfg\<close> c cc speaker_conditioning_ids[of cfg sm data c]
        obtain "is" where "c' = SpeakerIds is"
          "map (map_of sm) (speaker_names data) = map (\<lambda>i. Some (IdVal i)) is" by auto
        then have "length is = length (speaker_names data)"
          by (metis length_map)
        with \<open>c' = SpeakerIds is\<close> wf show ?thesis by (simp add: wf_batch_def)
      qed
    qed
  }
qed

theorem format_data_speaker_conditioning_witness:
  "wf_batch ex_batch \<and>
   returns (format_data (ex_config\<lparr>use_speaker_embedding := True\<rparr>) ex_globals ex_speaker_ids ex_batch) \<and>
   (\<exists>r. result (format_data (ex_config\<lparr>use_speaker_embedding := True\<rparr>) ex_globals ex_speaker_ids ex_batch) = Inr r \<and>
        f_speaker_c r = Some (Tensor Cpu (SpeakerIds [0, 1])) \<and>
        speaker_batch_dim (SpeakerIds [0, 1]) = batch_dim ex_batch)"
proof -
  have wf: "wf_batch ex_batch"
    by (simp add: wf_batch_def ex_batch_def batch_dim_def)
  have ext: "use_speaker_embedding (ex_config\<lparr>use_speaker_embedding := True\<rparr>) \<and>
      use_external_speaker_embedding_file (ex_config\<lparr>use_speaker_embedding := True\<rparr>) \<longrightarrow>
      speaker_embeddings ex_batch \<noteq> None"
    by (simp add: ex_config_def)
  have r: "result (format_data (ex_config\<lparr>use_speaker_embedding := True\<rparr>) ex_globals ex_speaker_ids ex_batch)
      = Inr \<lparr> f_text_input = Tensor Cpu [ [1, 2], [3, 0] ], f_text_lengths = Tensor Cpu [2, 1],
              f_mel_input = Tensor Cpu [ [ [1, 2] ], [ [3, 0] ] ], f_mel_lengths = Tensor Cpu [2, 1],
              f_speaker_c = Some (Tensor Cpu (SpeakerIds [0, 1])), f_attn_mask = None,
              f_item_idx = [''a.wav'', ''b.wav''] \<rparr>"
    by (simp add: format_data_def speaker_conditioning_def result_bind dict_get_def
        ex_config_def ex_globals_def ex_speaker_ids_def ex_batch_def to_device_def
        result_def bind_def ret_def)
  from format_data_speaker_conditioning[OF wf ext, of ex_globals ex_speaker_ids] wf r
  show ?thesis by (simp add: returns_result)
qed


subsection \<open>The update of a training step\<close>

lemma never_dict_get: "(\<And>e. \<not> P (Raised e)) \<Longrightarrow> never P (dict_get d k)"
  by (simp add: dict_get_def split: option.splits)

lemma never_lookup_speakers: "(\<And>e. \<not> P (Raised e)) \<Longrightarrow> never P (lookup_speakers sm ns)"
  by (induction ns) (auto intro!: never_intros never_dict_get)

lemma never_long_tensor: "(\<And>e. \<not> P (Raised e)) \<Longrightarrow> never P (long_tensor vs)"
  by (induction vs rule: long_tensor.induct) (auto intro!: never_intros)

lemma never_format_data: "(\<And>e. \<not> P (Raised e)) \<Longrightarrow> never P (format_data cfg g sm data)"
  by (auto simp: format_data_def speaker_conditioning_def
           intro!: never_intros never_lookup_speakers never_long_tensor)

lemma never_mod_is_zero: "(\<And>e. \<not> P (Raised e)) \<Longrightarrow> never P (mod_is_zero x y)"
  by (simp add: mod_is_zero_def)

lemma not_update_Raised [simp]: "\<not> update_event (Raised e)"
  by (simp add: update_event_def)












lemma returns_iff: "returns m \<longleftrightarrow> (case result m of Inl e \<Rightarrow> False | Inr v \<Rightarrow> True)"
  by (simp add: returns_def result_def)




subsection \<open>A single process\<close>

lemma never_reduce_aggregate_losses:
  "num_gpus g \<le> 1 \<Longrightarrow> never is_reduce (aggregate_losses env g ph i)"
  by (auto simp: aggregate_losses_def Let_def intro!: never_intros)

lemma never_reduce_train_step:
  "num_gpus g \<le> 1 \<Longrightarrow> never is_reduce (train_step env cfg g a sm m epoch num_iter data gs ka)"
  unfolding train_step_def Let_def forward_and_loss_def backward_and_update_def
    train_step_report_def train_step_rank0_def
  by (intro never_intros never_format_data never_mod_is_zero never_reduce_aggregate_losses)
     (auto simp: inference_event_def split: if_splits)

lemma never_reduce_train_loop:
  "num_gpus g \<le> 1 \<Longrightarrow> never is_reduce (train_loop env cfg g a sm m epoch num_iter ds gs ka)"
  by (induction ds arbitrary: num_iter gs ka)
     (auto intro!: never_intros never_reduce_train_step)

lemma never_reduce_train:
  "num_gpus g \<le> 1 \<Longrightarrow> never is_reduce (train env cfg g a sm m epoch gs)"
  unfolding train_def
  by (intro never_intros never_reduce_train_loop) (auto intro!: never_intros)

lemma never_reduce_eval_step:
  "num_gpus g \<le> 1 \<Longrightarrow> never is_reduce (eval_step env cfg g sm m epoch num_iter data ka)"
  unfolding eval_step_def Let_def
  by (intro never_intros never_format_data never_reduce_aggregate_losses) auto

lemma never_reduce_eval_loop:
  "num_gpus g \<le> 1 \<Longrightarrow> never is_reduce (eval_loop env cfg g sm m epoch num_iter ds ka lb)"
  by (induction ds arbitrary: num_iter ka lb)
     (auto intro!: never_intros never_reduce_eval_step)

lemma never_reduce_validation_pass:
  "num_gpus g \<le> 1 \<Longrightarrow> never is_reduce (validation_pass env cfg g a sm m loader epoch gs)"
  unfolding validation_pass_def eval_diagnostics_def
  by (auto split: option.splits simp: inference_event_def
           intro!: never_intros never_reduce_eval_loop)

lemma never_randrange: "\<not> P (Randrange n) \<Longrightarrow> (\<And>e. \<not> P (Raised e)) \<Longrightarrow> never P (randrange k n)"
  by (simp add: randrange_def never_call)

lemma never_reduce_synth_loop:
  "never is_reduce (synth_loop env g epoch gs spk idx ss)"
  by (induction ss arbitrary: idx)
     (auto simp: synth_sentence_def log_test_error_def intro!: never_intros)

lemma never_reduce_synthesize_test_sentences:
  "never is_reduce (synthesize_test_sentences env cfg g sm epoch gs)"
  unfolding synthesize_test_sentences_def load_test_sentences_def choose_test_speaker_def
    embedding_of_def
  by (auto split: option.splits speaker_val.splits
           intro!: never_intros never_reduce_synth_loop never_randrange never_dict_get)

lemma never_reduce_evaluate:
  "num_gpus g \<le> 1 \<Longrightarrow> never is_reduce (evaluate env cfg g a sm m loader epoch gs)"
  unfolding evaluate_def
  by (intro never_intros never_reduce_validation_pass never_reduce_synthesize_test_sentences)
     auto

lemma setup_loader_single:
  assumes "num_gpus g \<le> 1"
  shows "setup_loader cfg g is_val =
     (if is_val \<and> \<not> run_eval cfg then ([], Inr None)
      else ([Call ''MyDataset''] @
            (if use_phonemes cfg \<and> compute_input_seq_cache cfg
             then [Call ''dataset.compute_input_seq''] else []) @
            [Call ''dataset.sort_items'',
             DataLoader_new (if is_val then eval_batch_size cfg else batch_size cfg) False],
            Inr (Some \<lparr> l_is_val = is_val,
                        l_batch_size = (if is_val then eval_batch_size cfg else batch_size cfg),
                        l_sampler = None \<rparr>)))"
  using assms
  by (simp add: setup_loader_def Let_def seq_def bind_def emit_def ret_def if_then_def)

text \<open>
  Claim C3. With \<open>num_gpus = 1\<close>: \<open>setup_loader\<close> builds no \<open>DistributedSampler\<close>,
  every \<open>DataLoader\<close> it constructs gets \<open>sampler = None\<close> (and it constructs one unless
  it is asked for the validation loader while \<open>run_eval\<close> is off), and neither \<open>train\<close>
  nor \<open>evaluate\<close> calls \<open>reduce_tensor\<close>, whatever the collaborators do.
\<close>

theorem single_process_no_sampler_no_reduce:
  assumes "num_gpus g = 1"
  shows "never is_sampler (setup_loader cfg g is_val) \<and>
         (\<forall>bs s. DataLoader_new bs s \<in> set (trace (setup_loader cfg g is_val)) \<longrightarrow> \<not> s) \<and>
         (\<forall>l. result (setup_loader cfg g is_val) = Inr (Some l) \<longrightarrow> l_sampler l = None) \<and>
         (\<not> (is_val \<and> \<not> run_eval cfg) \<longrightarrow>
            (\<exists>l. result (setup_loader cfg g is_val) = Inr (Some l)) \<and>
            (\<exists>bs. DataLoader_new bs False \<in> set (trace (setup_loader cfg g is_val)))) \<and>
         never is_reduce (train env cfg g a sm m epoch gs) \<and>
         never is_reduce (evaluate env cfg g a sm m loader epoch gs)"
proof -
  have le: "num_gpus g \<le> 1" using assms by simp
  note sl = setup_loader_single[OF le, of cfg is_val]
  have 1: "never is_sampler (setup_loader cfg g is_val)"
    by (simp add: sl never_def trace_def is_sampler_def)
  have 2: "\<forall>bs s. DataLoader_new bs s \<in> set (trace (setup_loader cfg g is_val)) \<longrightarrow> \<not> s"
    by (simp add: sl trace_def)
  have 3: "\<forall>l. result (setup_loader cfg g is_val) = Inr (Some l) \<longrightarrow> l_sampler l = None"
    by (auto simp: sl result_def)
  have 4: "\<not> (is_val \<and> \<not> run_eval cfg) \<longrightarrow>
            (\<exists>l. result (setup_loader cfg g is_val) = Inr (Some l)) \<and>
            (\<exists>bs. DataLoader_new bs False \<in> set (trace (setup_loader cfg g is_val)))"
    by (simp add: sl result_def trace_def)
  show ?thesis
    by (intro conjI 1 2 3 4 never_reduce_train[OF le] never_reduce_evaluate[OF le])
qed

theorem single_process_no_sampler_no_reduce_witness:
  "num_gpus ex_globals = 1 \<and>
   trace (setup_loader ex_config ex_globals False) =
     [Call ''MyDataset'', Call ''dataset.sort_items'', DataLoader_new 2 False] \<and>
   never is_sampler (setup_loader ex_config ex_globals False) \<and>
   never is_reduce (train ex_env ex_config ex_globals ex_args ex_speaker_ids
      (Plain (init_flows ex_env)) 0 100) \<and>
   never is_reduce (evaluate ex_env ex_config ex_globals ex_args ex_speaker_ids
      (Plain (init_flows ex_env)) None 0 100)"
proof -
  have n: "num_gpus ex_globals = 1" by (simp add: ex_globals_def)
  have t: "trace (setup_loader ex_config ex_globals False) =
     [Call ''MyDataset'', Call ''dataset.sort_items'', DataLoader_new 2 False]"
    by (simp add: setup_loader_def Let_def seq_def bind_def emit_def ret_def if_then_def
        trace_def ex_config_def ex_globals_def)
  from single_process_no_sampler_no_reduce[OF n, of ex_config False ex_env ex_args ex_speaker_ids
      "Plain (init_flows ex_env)" 0 100 None] n t
  show ?thesis by simp
qed

subsection \<open>The warm-up passes of \<open>data_depended_init\<close>\<close>

lemma ddi_loop_forward_count:
  assumes "returns (ddi_loop env cfg g sm m pos n ds)" "n \<le> data_dep_init_steps cfg"
  shows "length (filter is_forward (trace (ddi_loop env cfg g sm m pos n ds))) =
         min (length ds) (nat (data_dep_init_steps cfg - n) + 1)"
  using assms
proof (induction ds arbitrary: pos n)
  case Nil
  show ?case by simp
next
  case (Cons d ds)
  from Cons.prems(1) have fd: "returns (format_data cfg g sm d)"
    by (auto simp: returns_iff result_bind split: sum.splits)
  then have tfd: "filter is_forward (trace (format_data cfg g sm d)) = []"
    using never_format_data[of is_forward cfg g sm d] by (simp add: never_filter)
  from Cons.prems(1) fd have fw: "forward_exn env Init pos = None"
    by (auto simp: returns_iff result_bind result_seq result_call_unit split: sum.splits option.splits)
  show ?case
  proof (cases "n = data_dep_init_steps cfg")
    case True
    with fd fw tfd show ?thesis
      by (auto simp: returns_iff trace_bind trace_seq result_call_unit trace_call_unit
          split: sum.splits)
  next
    case False
    with Cons.prems(2) have lt: "n + 1 \<le> data_dep_init_steps cfg" by simp
    from Cons.prems(1) fd fw False have r: "returns (ddi_loop env cfg g sm m (Suc pos) (n + 1) ds)"
      by (auto simp: returns_iff result_bind result_seq result_call_unit split: sum.splits)
    from Cons.IH[OF r lt] fd fw tfd False lt show ?thesis
      by (auto simp: returns_iff trace_bind trace_seq result_call_unit trace_call_unit
          split: sum.splits)
  qed
qed

text \<open>
  Claim C2. With \<open>data_dep_init_steps = 1\<close> and a loader of three batches,
  \<open>data_depended_init\<close> sets the flag on the one layer that has \<open>set_ddi\<close>, then runs two
  forward passes, both without gradients and with the flag set, and then clears the flag:
  one pass more than the configured number, because the test that leaves the loop comes
  after the forward pass and before the counter is incremented.
\<close>

theorem data_depended_init_one_pass_more:
  "data_dep_init_steps ex_config = 1 \<and>
   data_depended_init ex_three_batches_env ex_config ex_globals ex_speaker_ids
     (Plain (init_flows ex_env)) =
   ([Set_ddi 0 True, Call ''model.train'', Print '' > Data depended initialization ... '',
     Model_forward (Plain [\<lparr>has_set_ddi = True, ddi = True\<rparr>, \<lparr>has_set_ddi = False, ddi = False\<rparr>]) False,
     Model_forward (Plain [\<lparr>has_set_ddi = True, ddi = True\<rparr>, \<lparr>has_set_ddi = False, ddi = False\<rparr>]) False,
     Set_ddi 0 False],
    Inr (Plain [\<lparr>has_set_ddi = True, ddi = False\<rparr>, \<lparr>has_set_ddi = False, ddi = False\<rparr>]))"
  by (simp add: data_depended_init_def set_ddi_model_def set_ddi_def ex_three_batches_env_def
      ex_env_def ex_config_def format_data_def speaker_conditioning_def
      bind_def seq_def ret_def emit_def emits_def call_unit_def)

subsection \<open>The loop over the test sentences\<close>

lemma result_log_test_error [simp]: "result (log_test_error idx e) = Inr ()"
  by (simp add: log_test_error_def)

lemma result_caught_sentence [simp]:
  "result (try_except (synth_sentence env g epoch gs spk idx s) (log_test_error idx)) = Inr ()"
  by (simp add: result_try_except split: sum.splits)

lemma result_synth_loop [simp]: "result (synth_loop env g epoch gs spk idx ss) = Inr ()"
  by (induction ss arbitrary: idx) (simp_all add: result_seq)

lemma trace_log_test_error: "trace (log_test_error idx e) = trace (log_test_error idx KeyboardInterrupt)"
  by (simp add: log_test_error_def)

lemma trace_synth_loop_Cons:
  "trace (synth_loop env g epoch gs spk idx (s # ss)) =
     trace (synth_sentence env g epoch gs spk idx s) @
     (if returns (synth_sentence env g epoch gs spk idx s) then [] else trace (log_test_error idx KeyboardInterrupt)) @
     trace (synth_loop env g epoch gs spk (Suc idx) ss)"
  using trace_log_test_error[of idx]
  by (simp add: trace_seq trace_try_except returns_iff split: sum.splits)

lemma synthesis_attempted:
  "Synthesis idx s (fst spk) (snd spk) \<in> set (trace (synth_sentence env g epoch gs spk idx s))"
  by (simp add: synth_sentence_def trace_bind trace_call result_call split: sum.splits)

lemma synth_loop_attempts_all:
  "k < length ss \<Longrightarrow>
   Synthesis (idx + k) (ss ! k) (fst spk) (snd spk) \<in> set (trace (synth_loop env g epoch gs spk idx ss))"
proof (induction ss arbitrary: idx k)
  case Nil
  then show ?case by simp
next
  case (Cons s ss)
  show ?case
  proof (cases k)
    case 0
    then show ?thesis
      using synthesis_attempted[of idx s spk env g epoch gs]
      by (simp add: trace_synth_loop_Cons del: synth_loop.simps)
  next
    case (Suc j)
    with Cons.prems have "j < length ss" by simp
    from Cons.IH[OF this, of "Suc idx"] Suc show ?thesis
      by (simp add: trace_synth_loop_Cons del: synth_loop.simps)
  qed
qed

lemma synth_loop_logs_failures:
  "k < length ss \<Longrightarrow> \<not> returns (synth_sentence env g epoch gs spk (idx + k) (ss ! k)) \<Longrightarrow>
   set (trace (log_test_error (idx + k) e)) \<subseteq> set (trace (synth_loop env g epoch gs spk idx ss))"
proof (induction ss arbitrary: idx k)
  case Nil
  then show ?case by simp
next
  case (Cons s ss)
  show ?case
  proof (cases k)
    case 0
    with Cons.prems show ?thesis
      using trace_log_test_error[of idx e]
      by (auto simp add: trace_synth_loop_Cons simp del: synth_loop.simps)
  next
    case (Suc j)
    with Cons.prems have "j < length ss"
      "\<not> returns (synth_sentence env g epoch gs spk (Suc idx + j) (ss ! j))" by simp_all
    from Cons.IH[OF this] Suc show ?thesis
      by (auto simp add: trace_synth_loop_Cons simp del: synth_loop.simps)
  qed
qed

lemma returns_synthesize_test_sentences:
  "returns (synthesize_test_sentences env cfg g sm epoch gs) \<longleftrightarrow>
     returns (load_test_sentences env cfg epoch) \<and> returns (choose_test_speaker env cfg sm epoch)"
  by (auto simp: synthesize_test_sentences_def returns_iff result_bind result_seq split: sum.splits)

lemma returns_evaluate:
  "returns (evaluate env cfg g a sm m loader epoch gs) \<longleftrightarrow>
     returns (validation_pass env cfg g a sm m loader epoch gs) \<and>
     (rank a = 0 \<and> test_delay_epochs cfg \<le> int epoch \<longrightarrow>
        returns (load_test_sentences env cfg epoch) \<and> returns (choose_test_speaker env cfg sm epoch))"
  using returns_synthesize_test_sentences[of env cfg g sm epoch gs]
  by (auto simp: evaluate_def returns_iff result_bind result_seq result_if_then split: sum.splits)

text \<open>
  Claim C6. The loop over the test sentences always returns: whatever exception leaves
  the synthesis, the creation of the directory, the saving or the plots of a sentence, it
  is caught. Every sentence of the list is attempted, also after failures, and for every
  failing sentence the error line with its index and the traceback are printed. Whether
  \<open>evaluate\<close> returns does not depend on the test sentences: it returns exactly when the
  validation pass returns and, where the test block runs, the sentences are loaded and
  the speaker is chosen.
\<close>

theorem test_sentence_failures_are_isolated:
  "returns (synth_loop env g epoch gs spk idx ss) \<and>
   (\<forall>k < length ss.
      Synthesis (idx + k) (ss ! k) (fst spk) (snd spk)
        \<in> set (trace (synth_loop env g epoch gs spk idx ss))) \<and>
   (\<forall>k < length ss.
      \<not> returns (synth_sentence env g epoch gs spk (idx + k) (ss ! k)) \<longrightarrow>
      Print ('' !! Error creating Test Sentence - '' @ str_nat (idx + k))
        \<in> set (trace (synth_loop env g epoch gs spk idx ss)) \<and>
      Call ''traceback.print_exc'' \<in> set (trace (synth_loop env g epoch gs spk idx ss))) \<and>
   (returns (evaluate env cfg g a sm m loader epoch gs) \<longleftrightarrow>
      returns (validation_pass env cfg g a sm m loader epoch gs) \<and>
      (rank a = 0 \<and> test_delay_epochs cfg \<le> int epoch \<longrightarrow>
         returns (load_test_sentences env cfg epoch) \<and>
         returns (choose_test_speaker env cfg sm epoch)))"
proof (intro conjI allI impI)
  show "returns (synth_loop env g epoch gs spk idx ss)"
    by (simp add: returns_iff)
next
  fix k assume "k < length ss"
  then show "Synthesis (idx + k) (ss ! k) (fst spk) (snd spk)
        \<in> set (trace (synth_loop env g epoch gs spk idx ss))"
    by (rule synth_loop_attempts_all)
next
  fix k assume k: "k < length ss"
    and f: "\<not> returns (synth_sentence env g epoch gs spk (idx + k) (ss ! k))"
  from synth_loop_logs_failures[OF k f, of KeyboardInterrupt]
  show "Print ('' !! Error creating Test Sentence - '' @ str_nat (idx + k))
        \<in> set (trace (synth_loop env g epoch gs spk idx ss))"
    and "Call ''traceback.print_exc'' \<in> set (trace (synth_loop env g epoch gs spk idx ss))"
    by (simp_all add: log_test_error_def)
next
  show "returns (evaluate env cfg g a sm m loader epoch gs) \<longleftrightarrow>
      returns (validation_pass env cfg g a sm m loader epoch gs) \<and>
      (rank a = 0 \<and> test_delay_epochs cfg \<le> int epoch \<longrightarrow>
         returns (load_test_sentences env cfg epoch) \<and>
         returns (choose_test_speaker env cfg sm epoch))"
    by (rule returns_evaluate)
qed

lemma ex_first_sentence_fails:
  "\<not> returns (synth_sentence ex_failing_env ex_globals 0 101 (None, None) 0 ''Hello.'')"
  by (simp add: returns_iff synth_sentence_def result_bind result_call ex_failing_env_def ex_env_def)

theorem test_sentence_failures_are_isolated_witness:
  "\<not> returns (synth_sentence ex_failing_env ex_globals 0 101 (None, None) 0 ''Hello.'') \<and>
   returns (synth_loop ex_failing_env ex_globals 0 101 (None, None) 0 [''Hello.'', ''Bye.'']) \<and>
   Print '' !! Error creating Test Sentence - 0''
     \<in> set (trace (synth_loop ex_failing_env ex_globals 0 101 (None, None) 0 [''Hello.'', ''Bye.''])) \<and>
   Synthesis 1 ''Bye.'' None None
     \<in> set (trace (synth_loop ex_failing_env ex_globals 0 101 (None, None) 0 [''Hello.'', ''Bye.'']))"
proof -
  note t = test_sentence_failures_are_isolated[of ex_failing_env ex_globals 0 101 "(None, None)" 0
      "[''Hello.'', ''Bye.'']" ex_config ex_args ex_speaker_ids "Plain (init_flows ex_env)" None]
  note a = t[THEN conjunct2, THEN conjunct1]
  note b = t[THEN conjunct2, THEN conjunct2, THEN conjunct1]
  from a[rule_format, of 1] have a1: "Synthesis 1 ''Bye.'' None None
     \<in> set (trace (synth_loop ex_failing_env ex_globals 0 101 (None, None) 0 [''Hello.'', ''Bye.'']))"
    by simp
  from b[rule_format, of 0] ex_first_sentence_fails
  have b0: "Print ('' !! Error creating Test Sentence - '' @ str_nat 0)
     \<in> set (trace (synth_loop ex_failing_env ex_globals 0 101 (None, None) 0 [''Hello.'', ''Bye.'']))"
    by simp
  have s0: "str_nat 0 = ''0''" by (simp add: str_nat.simps digit_char_def)
  note r = t[THEN conjunct1]
  from b0 s0 a1 r ex_first_sentence_fails show ?thesis by simp
qed

subsection \<open>The guard of the test block and the paths of the waveforms\<close>

lemma digit_char_digit: "d < 10 \<Longrightarrow> digit_char d \<in> set ''0123456789''"
  unfolding digit_char_def by (rule nth_mem) simp

lemma str_nat_digits: "str_nat n \<noteq> [] \<and> set (str_nat n) \<subseteq> set ''0123456789''"
proof (induction n rule: str_nat.induct)
  case (1 n)
  show ?case
  proof (cases "n < 10")
    case True
    then show ?thesis
      using digit_char_digit[of n] by (subst (1 2) str_nat.simps) simp
  next
    case False
    then have "n mod 10 < 10" by simp
    with False 1 digit_char_digit[of "n mod 10"] show ?thesis
      by (subst (1 2) str_nat.simps) simp
  qed
qed

lemma str_nat_no_slash: "CHR ''/'' \<notin> set (str_nat n)"
  using str_nat_digits[of n] by auto

lemma str_int_no_slash: "str_int i \<noteq> [] \<and> CHR ''/'' \<notin> set (str_int i)"
  using str_nat_digits[of "nat i"] str_nat_no_slash[of "nat i"] str_nat_no_slash[of "nat (- i)"]
  by (simp add: str_int_def)

lemma test_sentence_path_eq:
  assumes "AUDIO_PATH g \<noteq> []" "last (AUDIO_PATH g) \<noteq> CHR ''/''"
  shows "test_sentence_path g gs idx =
         AUDIO_PATH g @ ''/'' @ str_int gs @ ''/'' @ ''TestSentence_'' @ str_nat idx @ ''.wav''"
proof -
  have ne: "str_int gs \<noteq> []" and ns: "CHR ''/'' \<notin> set (str_int gs)"
    using str_int_no_slash[of gs] by simp_all
  from ne ns have "hd (str_int gs) \<noteq> CHR ''/''" "last (str_int gs) \<noteq> CHR ''/''"
    by (metis hd_in_set, metis last_in_set)
  with assms ne show ?thesis
    by (simp add: test_sentence_path_def path_join_def)
qed

lemma not_test_Raised [simp]: "\<not> is_test_event (Raised e)"
  by simp

lemma never_test_eval_step:
  "never is_test_event (eval_step env cfg g sm m epoch num_iter data ka)"
  unfolding eval_step_def Let_def aggregate_losses_def
  by (intro never_intros never_format_data) (auto intro!: never_intros)

lemma never_test_eval_loop:
  "never is_test_event (eval_loop env cfg g sm m epoch num_iter ds ka lb)"
  by (induction ds arbitrary: num_iter ka lb)
     (auto intro!: never_intros never_test_eval_step)

lemma never_test_validation_pass:
  "never is_test_event (validation_pass env cfg g a sm m loader epoch gs)"
  unfolding validation_pass_def eval_diagnostics_def
  by (auto split: option.splits simp: inference_event_def
           intro!: never_intros never_test_eval_loop)

lemma never_test_load: "never is_test_event (load_test_sentences env cfg epoch)"
  unfolding load_test_sentences_def
  by (auto split: option.splits intro!: never_intros)

lemma never_test_choose: "never is_test_event (choose_test_speaker env cfg sm epoch)"
  unfolding choose_test_speaker_def embedding_of_def
  by (auto split: speaker_val.splits intro!: never_intros never_randrange never_dict_get)

lemma never_test_outside_guard:
  "\<not> (rank a = 0 \<and> test_delay_epochs cfg \<le> int epoch) \<Longrightarrow>
   never is_test_event (evaluate env cfg g a sm m loader epoch gs)"
  unfolding evaluate_def
  by (intro never_intros never_test_validation_pass) auto

lemma trace_evaluate_test_block:
  assumes "rank a = 0" "test_delay_epochs cfg \<le> int epoch"
    and "returns (validation_pass env cfg g a sm m loader epoch gs)"
    and "result (load_test_sentences env cfg epoch) = Inr ss"
    and "result (choose_test_speaker env cfg sm epoch) = Inr spk"
  shows "trace (evaluate env cfg g a sm m loader epoch gs) =
     [Call ''model.eval'', Call ''c_logger.print_eval_start''] @
     trace (validation_pass env cfg g a sm m loader epoch gs) @
     trace (load_test_sentences env cfg epoch) @
     [Print '' | > Synthesizing test sentences''] @
     trace (choose_test_speaker env cfg sm epoch) @
     trace (synth_loop env g epoch gs spk 0 ss) @
     [Log ''tb_logger.tb_test_audios'' gs, Log ''tb_logger.tb_test_figures'' gs]"
  using assms
  by (auto simp: evaluate_def synthesize_test_sentences_def returns_iff trace_bind trace_seq
        trace_if_then result_bind result_seq result_if_then split: sum.splits)

lemma save_wav_synth_sentence:
  "Save_wav w p \<in> set (trace (synth_sentence env g epoch gs spk idx s)) \<Longrightarrow>
   p = test_sentence_path g gs idx \<and> synthesis_out env epoch idx = Inr w"
  by (auto simp: synth_sentence_def trace_bind trace_seq trace_call trace_call_unit
        result_call result_call_unit split: sum.splits option.splits)

lemma save_wav_synth_loop:
  "Save_wav w p \<in> set (trace (synth_loop env g epoch gs spk idx ss)) \<Longrightarrow>
   \<exists>k < length ss. p = test_sentence_path g gs (idx + k) \<and> synthesis_out env epoch (idx + k) = Inr w"
proof (induction ss arbitrary: idx)
  case Nil
  then show ?case by simp
next
  case (Cons s ss)
  from Cons.prems consider
    (here) "Save_wav w p \<in> set (trace (synth_sentence env g epoch gs spk idx s))"
    | (later) "Save_wav w p \<in> set (trace (synth_loop env g epoch gs spk (Suc idx) ss))"
    by (auto simp add: trace_synth_loop_Cons log_test_error_def simp del: synth_loop.simps
        split: if_splits)
  then show ?case
  proof cases
    case here
    from save_wav_synth_sentence[OF this] show ?thesis by auto
  next
    case later
    from Cons.IH[OF this] obtain k where "k < length ss"
      "p = test_sentence_path g gs (Suc idx + k)" "synthesis_out env epoch (Suc idx + k) = Inr w"
      by blast
    then have "Suc k < length (s # ss) \<and> p = test_sentence_path g gs (idx + Suc k) \<and>
        synthesis_out env epoch (idx + Suc k) = Inr w" by simp
    then show ?thesis by blast
  qed
qed

lemma save_wav_written_sentence:
  "synthesis_out env epoch idx = Inr w \<Longrightarrow> test_call_exn env epoch idx ''os.makedirs'' = None \<Longrightarrow>
   Save_wav w (test_sentence_path g gs idx) \<in> set (trace (synth_sentence env g epoch gs spk idx s))"
  by (auto simp: synth_sentence_def trace_bind trace_seq trace_call trace_call_unit
        result_call result_call_unit split: sum.splits option.splits)

lemma save_wav_written_loop:
  "k < length ss \<Longrightarrow> synthesis_out env epoch (idx + k) = Inr w \<Longrightarrow>
   test_call_exn env epoch (idx + k) ''os.makedirs'' = None \<Longrightarrow>
   Save_wav w (test_sentence_path g gs (idx + k)) \<in> set (trace (synth_loop env g epoch gs spk idx ss))"
proof (induction ss arbitrary: idx k)
  case Nil
  then show ?case by simp
next
  case (Cons s ss)
  show ?case
  proof (cases k)
    case 0
    with Cons.prems save_wav_written_sentence[of env epoch idx w g gs spk s] show ?thesis
      by (simp add: trace_synth_loop_Cons del: synth_loop.simps)
  next
    case (Suc j)
    with Cons.prems have "j < length ss" "synthesis_out env epoch (Suc idx + j) = Inr w"
      "test_call_exn env epoch (Suc idx + j) ''os.makedirs'' = None" by simp_all
    from Cons.IH[OF this] Suc show ?thesis
      by (simp add: trace_synth_loop_Cons del: synth_loop.simps)
  qed
qed

lemma save_wav_evaluate:
  assumes "Save_wav w p \<in> set (trace (evaluate env cfg g a sm m loader epoch gs))"
  shows "\<exists>ss spk. result (load_test_sentences env cfg epoch) = Inr ss \<and>
           result (choose_test_speaker env cfg sm epoch) = Inr spk \<and>
           Save_wav w p \<in> set (trace (synth_loop env g epoch gs spk 0 ss))"
  using assms
    never_set[OF never_test_validation_pass, of "Save_wav w p" env cfg g a sm m loader epoch gs]
    never_set[OF never_test_load, of "Save_wav w p" env cfg epoch]
    never_set[OF never_test_choose, of "Save_wav w p" env cfg sm epoch]
  by (auto simp: evaluate_def synthesize_test_sentences_def trace_bind trace_seq
        trace_if_then result_bind result_seq result_if_then split: sum.splits if_splits)

text \<open>
  Claim C8. Outside the guard (rank 0 and \<open>epoch >= config.test_delay_epochs\<close>)
  \<open>evaluate\<close> synthesizes nothing, creates no directory and saves no waveform. Under the
  guard, once the validation pass has returned, the sentences are loaded and the speaker
  is chosen, every test sentence is synthesized, and the waveform of every sentence whose
  synthesis and directory creation succeed is saved under the path of its position. Every
  waveform \<open>evaluate\<close> saves is the synthesized waveform of a position \<open>k\<close> of the list,
  saved to \<open>os.path.join(os.path.join(AUDIO_PATH, str(global_step)),
  "TestSentence_k.wav")\<close>, which for a non-empty \<open>AUDIO_PATH\<close> without a trailing slash
  is \<open>AUDIO_PATH/global_step/TestSentence_k.wav\<close>.
\<close>

theorem test_synthesis_guard_and_paths:
  "(\<not> (rank a = 0 \<and> test_delay_epochs cfg \<le> int epoch) \<longrightarrow>
      never is_test_event (evaluate env cfg g a sm m loader epoch gs)) \<and>
   (rank a = 0 \<and> test_delay_epochs cfg \<le> int epoch \<and>
    returns (validation_pass env cfg g a sm m loader epoch gs) \<and>
    result (load_test_sentences env cfg epoch) = Inr ss \<and>
    result (choose_test_speaker env cfg sm epoch) = Inr spk \<longrightarrow>
      Print '' | > Synthesizing test sentences''
        \<in> set (trace (evaluate env cfg g a sm m loader epoch gs)) \<and>
      (\<forall>k < length ss. Synthesis k (ss ! k) (fst spk) (snd spk)
        \<in> set (trace (evaluate env cfg g a sm m loader epoch gs))) \<and>
      (\<forall>k < length ss. \<forall>w.
         synthesis_out env epoch k = Inr w \<and> test_call_exn env epoch k ''os.makedirs'' = None \<longrightarrow>
         Save_wav w (test_sentence_path g gs k)
           \<in> set (trace (evaluate env cfg g a sm m loader epoch gs)))) \<and>
   (\<forall>w p. Save_wav w p \<in> set (trace (evaluate env cfg g a sm m loader epoch gs)) \<longrightarrow>
      (\<exists>ss' k. result (load_test_sentences env cfg epoch) = Inr ss' \<and> k < length ss' \<and>
         synthesis_out env epoch k = Inr w \<and> p = test_sentence_path g gs k)) \<and>
   (AUDIO_PATH g \<noteq> [] \<and> last (AUDIO_PATH g) \<noteq> CHR ''/'' \<longrightarrow>
      (\<forall>k. test_sentence_path g gs k =
         AUDIO_PATH g @ ''/'' @ str_int gs @ ''/'' @ ''TestSentence_'' @ str_nat k @ ''.wav''))"
proof (intro conjI impI allI)
  assume "\<not> (rank a = 0 \<and> test_delay_epochs cfg \<le> int epoch)"
  then show "never is_test_event (evaluate env cfg g a sm m loader epoch gs)"
    by (rule never_test_outside_guard)
next
  assume h: "rank a = 0 \<and> test_delay_epochs cfg \<le> int epoch \<and>
    returns (validation_pass env cfg g a sm m loader epoch gs) \<and>
    result (load_test_sentences env cfg epoch) = Inr ss \<and>
    result (choose_test_speaker env cfg sm epoch) = Inr spk"
  then have t: "trace (evaluate env cfg g a sm m loader epoch gs) =
     [Call ''model.eval'', Call ''c_logger.print_eval_start''] @
     trace (validation_pass env cfg g a sm m loader epoch gs) @
     trace (load_test_sentences env cfg epoch) @
     [Print '' | > Synthesizing test sentences''] @
     trace (choose_test_speaker env cfg sm epoch) @
     trace (synth_loop env g epoch gs spk 0 ss) @
     [Log ''tb_logger.tb_test_audios'' gs, Log ''tb_logger.tb_test_figures'' gs]"
    by (intro trace_evaluate_test_block) simp_all
  show "Print '' | > Synthesizing test sentences''
        \<in> set (trace (evaluate env cfg g a sm m loader epoch gs))"
    unfolding t by simp
  {
    fix k assume k: "k < length ss"
    from synth_loop_attempts_all[OF k, of 0 spk env g epoch gs]
    show "Synthesis k (ss ! k) (fst spk) (snd spk)
        \<in> set (trace (evaluate env cfg g a sm m loader epoch gs))"
      unfolding t by simp
    fix w
    assume "synthesis_out env epoch k = Inr w \<and> test_call_exn env epoch k ''os.makedirs'' = None"
    with save_wav_written_loop[OF k, of env epoch 0 w g gs spk]
    show "Save_wav w (test_sentence_path g gs k)
           \<in> set (trace (evaluate env cfg g a sm m loader epoch gs))"
      unfolding t by simp
  }
next
  fix w p
  assume "Save_wav w p \<in> set (trace (evaluate env cfg g a sm m loader epoch gs))"
  from save_wav_evaluate[OF this] obtain ss' spk' where
    l: "result (load_test_sentences env cfg epoch) = Inr ss'"
    and s: "Save_wav w p \<in> set (trace (synth_loop env g epoch gs spk' 0 ss'))" by blast
  from save_wav_synth_loop[OF s] obtain k where "k < length ss'"
    "p = test_sentence_path g gs k" "synthesis_out env epoch k = Inr w" by auto
  with l show "\<exists>ss' k. result (load_test_sentences env cfg epoch) = Inr ss' \<and> k < length ss' \<and>
         synthesis_out env epoch k = Inr w \<and> p = test_sentence_path g gs k" by blast
next
  fix k
  assume "AUDIO_PATH g \<noteq> [] \<and> last (AUDIO_PATH g) \<noteq> CHR ''/''"
  then show "test_sentence_path g gs k =
         AUDIO_PATH g @ ''/'' @ str_int gs @ ''/'' @ ''TestSentence_'' @ str_nat k @ ''.wav''"
    by (simp add: test_sentence_path_eq)
qed

lemma ex_load_test_sentences: "result (load_test_sentences ex_env ex_config 0) = Inr [''Hello.'']"
  by (simp add: load_test_sentences_def result_bind result_call ex_env_def ex_config_def
      strip_def is_space_def)

lemma ex_choose_test_speaker:
  "result (choose_test_speaker ex_env ex_config ex_speaker_ids 0) = Inr (None, None)"
  by (simp add: choose_test_speaker_def ex_config_def)

lemma ex_validation_pass:
  "returns (validation_pass ex_env ex_config ex_globals ex_args ex_speaker_ids
     (Plain (init_flows ex_env)) None 0 101)"
  by (simp add: validation_pass_def returns_iff)

theorem test_synthesis_guard_and_paths_witness:
  "rank ex_args = 0 \<and> test_delay_epochs ex_config \<le> int 0 \<and>
   Synthesis 0 ''Hello.'' None None
     \<in> set (trace (evaluate ex_env ex_config ex_globals ex_args ex_speaker_ids
          (Plain (init_flows ex_env)) None 0 101)) \<and>
   Save_wav [0, 1] ''out/test_audios/101/TestSentence_0.wav''
     \<in> set (trace (evaluate ex_env ex_config ex_globals ex_args ex_speaker_ids
          (Plain (init_flows ex_env)) None 0 101))"
proof -
  note t = test_synthesis_guard_and_paths[of ex_args ex_config 0 ex_env ex_globals ex_speaker_ids
      "Plain (init_flows ex_env)" None 101 "[''Hello.'']" "(None, None)"]
  have g: "rank ex_args = 0 \<and> test_delay_epochs ex_config \<le> int 0"
    by (simp add: ex_args_def ex_config_def)
  have h: "rank ex_args = 0 \<and> test_delay_epochs ex_config \<le> int 0 \<and>
    returns (validation_pass ex_env ex_config ex_globals ex_args ex_speaker_ids
       (Plain (init_flows ex_env)) None 0 101) \<and>
    result (load_test_sentences ex_env ex_config 0) = Inr [''Hello.''] \<and>
    result (choose_test_speaker ex_env ex_config ex_speaker_ids 0) = Inr (None, None)"
    using g ex_validation_pass ex_load_test_sentences ex_choose_test_speaker by simp
  note b = t[THEN conjunct2, THEN conjunct1, rule_format, OF h]
  note e = t[THEN conjunct2, THEN conjunct2, THEN conjunct2, rule_format]
  have p: "test_sentence_path ex_globals 101 0 = ''out/test_audios/101/TestSentence_0.wav''"
    using e[of 0] by (simp add: ex_globals_def str_int_def str_nat.simps digit_char_def)
  have s: "Synthesis 0 ''Hello.'' None None
     \<in> set (trace (evaluate ex_env ex_config ex_globals ex_args ex_speaker_ids
          (Plain (init_flows ex_env)) None 0 101))"
    using b[THEN conjunct2, THEN conjunct1, rule_format, of 0] by simp
  have w: "Save_wav [0, 1] (test_sentence_path ex_globals 101 0)
     \<in> set (trace (evaluate ex_env ex_config ex_globals ex_args ex_speaker_ids
          (Plain (init_flows ex_env)) None 0 101))"
    using b[THEN conjunct2, THEN conjunct2, rule_format, of 0 "[0, 1]"]
    by (simp add: ex_env_def)
  from g s w p show ?thesis by simp
qed

subsection \<open>The speaker of the test sentences\<close>

lemma result_randrange:
  "result (randrange pick n) = (if n \<le> 0 then Inl (Exception ''ValueError'') else Inr (pick mod nat n))"
  by (simp add: randrange_def result_call)

lemma trace_randrange_hd: "Randrange n \<in> set (trace (randrange pick n))"
  by (simp add: randrange_def trace_call)

lemma choose_external:
  assumes "use_speaker_embedding cfg" "use_external_speaker_embedding_file cfg"
  shows "choose_test_speaker env cfg sm epoch =
           bind (randrange (randrange_pick env epoch) (int (length sm) - 1)) (\<lambda>k.
           bind (dict_get sm (map fst sm ! k)) (\<lambda>v.
           bind (embedding_of v) (\<lambda>emb. ret (None, Some emb))))"
  using assms by (simp add: choose_test_speaker_def)

lemma never_test_synthesize_aborted:
  assumes "result (choose_test_speaker env cfg sm epoch) = Inl e"
  shows "never is_test_event (synthesize_test_sentences env cfg g sm epoch gs)"
  using assms never_test_load[of env cfg epoch] never_test_choose[of env cfg sm epoch]
  by (auto simp: synthesize_test_sentences_def never_def trace_bind trace_seq result_bind
        result_seq split: sum.splits)

lemma result_synthesize_aborted:
  assumes "result (choose_test_speaker env cfg sm epoch) = Inl e"
    "returns (load_test_sentences env cfg epoch)"
  shows "result (synthesize_test_sentences env cfg g sm epoch gs) = Inl e"
  using assms
  by (auto simp: synthesize_test_sentences_def returns_iff result_bind result_seq split: sum.splits)

lemma evaluate_aborted:
  assumes "result (choose_test_speaker env cfg sm epoch) = Inl e"
    "returns (load_test_sentences env cfg epoch)"
    "returns (validation_pass env cfg g a sm m loader epoch gs)"
    "rank a = 0" "test_delay_epochs cfg \<le> int epoch"
  shows "result (evaluate env cfg g a sm m loader epoch gs) = Inl e"
    and "never is_test_event (evaluate env cfg g a sm m loader epoch gs)"
proof -
  show "result (evaluate env cfg g a sm m loader epoch gs) = Inl e"
    using assms result_synthesize_aborted[OF assms(1,2), of g gs]
    by (auto simp: evaluate_def returns_iff result_bind result_seq result_if_then split: sum.splits)
  show "never is_test_event (evaluate env cfg g a sm m loader epoch gs)"
    unfolding evaluate_def
    by (intro never_intros never_test_validation_pass never_test_synthesize_aborted[OF assms(1)])
       auto
qed

text \<open>
  Claim C10. In external speaker-embedding mode the speaker of the test sentences is
  chosen by \<open>randrange(len(speaker_mapping) - 1)\<close>. When the choice returns, the position
  it took lies below \<open>len(speaker_mapping) - 1\<close>, so the key at the last position is never
  the one looked up. With a mapping of one speaker (or none) the call raises
  \<open>ValueError\<close>; under the guard of the test block this exception leaves \<open>evaluate\<close>, and
  no sentence is synthesized.
\<close>

theorem external_test_speaker_choice:
  assumes "use_speaker_embedding cfg" "use_external_speaker_embedding_file cfg"
  shows "Randrange (int (length sm) - 1) \<in> set (trace (choose_test_speaker env cfg sm epoch)) \<and>
     (\<forall>r. result (choose_test_speaker env cfg sm epoch) = Inr r \<longrightarrow>
        (\<exists>k emb. k = randrange_pick env epoch mod (length sm - 1) \<and> k < length sm - 1 \<and>
           r = (None, Some emb) \<and>
           result (bind (dict_get sm (map fst sm ! k)) embedding_of) = Inr emb)) \<and>
     (length sm \<le> 1 \<longrightarrow>
        result (choose_test_speaker env cfg sm epoch) = Inl (Exception ''ValueError'')) \<and>
     (length sm = 1 \<and> rank a = 0 \<and> test_delay_epochs cfg \<le> int epoch \<and>
      returns (validation_pass env cfg g a sm m loader epoch gs) \<and>
      returns (load_test_sentences env cfg epoch) \<longrightarrow>
        result (evaluate env cfg g a sm m loader epoch gs) = Inl (Exception ''ValueError'') \<and>
        never is_test_event (evaluate env cfg g a sm m loader epoch gs))"
proof -
  note c = choose_external[OF assms, of env sm epoch]
  have 1: "Randrange (int (length sm) - 1) \<in> set (trace (choose_test_speaker env cfg sm epoch))"
    using trace_randrange_hd[of "int (length sm) - 1" "randrange_pick env epoch"]
    unfolding c by (auto simp: trace_bind split: sum.splits)
  have 2: "\<forall>r. result (choose_test_speaker env cfg sm epoch) = Inr r \<longrightarrow>
        (\<exists>k emb. k = randrange_pick env epoch mod (length sm - 1) \<and> k < length sm - 1 \<and>
           r = (None, Some emb) \<and>
           result (bind (dict_get sm (map fst sm ! k)) embedding_of) = Inr emb)"
  proof (intro allI impI)
    fix r assume r: "result (choose_test_speaker env cfg sm epoch) = Inr r"
    then have pos: "\<not> int (length sm) - 1 \<le> 0"
      unfolding c by (auto simp: result_bind result_randrange split: sum.splits if_splits)
    then have n: "nat (int (length sm) - 1) = length sm - 1" "0 < length sm - 1" by simp_all
    from r pos n obtain emb where
      "result (bind (dict_get sm (map fst sm ! (randrange_pick env epoch mod (length sm - 1))))
         embedding_of) = Inr emb" "r = (None, Some emb)"
      unfolding c by (auto simp: result_bind result_randrange split: sum.splits if_splits)
    with n show "\<exists>k emb. k = randrange_pick env epoch mod (length sm - 1) \<and> k < length sm - 1 \<and>
           r = (None, Some emb) \<and>
           result (bind (dict_get sm (map fst sm ! k)) embedding_of) = Inr emb"
      by simp
  qed
  have 3: "length sm \<le> 1 \<longrightarrow>
        result (choose_test_speaker env cfg sm epoch) = Inl (Exception ''ValueError'')"
    unfolding c by (simp add: result_bind result_randrange)
  have 4: "length sm = 1 \<and> rank a = 0 \<and> test_delay_epochs cfg \<le> int epoch \<and>
      returns (validation_pass env cfg g a sm m loader epoch gs) \<and>
      returns (load_test_sentences env cfg epoch) \<longrightarrow>
        result (evaluate env cfg g a sm m loader epoch gs) = Inl (Exception ''ValueError'') \<and>
        never is_test_event (evaluate env cfg g a sm m loader epoch gs)"
  proof (intro impI)
    assume h: "length sm = 1 \<and> rank a = 0 \<and> test_delay_epochs cfg \<le> int epoch \<and>
      returns (validation_pass env cfg g a sm m loader epoch gs) \<and>
      returns (load_test_sentences env cfg epoch)"
    with 3 have e: "result (choose_test_speaker env cfg sm epoch) = Inl (Exception ''ValueError'')"
      by simp
    from h evaluate_aborted[OF e, of g a m loader gs]
    show "result (evaluate env cfg g a sm m loader epoch gs) = Inl (Exception ''ValueError'') \<and>
        never is_test_event (evaluate env cfg g a sm m loader epoch gs)"
      by simp
  qed
  show ?thesis by (intro conjI 1 2 3 4)
qed

lemma validation_pass_no_loader: "returns (validation_pass env cfg g a sm m None epoch gs)"
  by (simp add: validation_pass_def returns_iff)

lemma ex_ext_load: "returns (load_test_sentences ex_env ex_ext_config 0)"
  by (simp add: load_test_sentences_def returns_iff result_bind result_call ex_env_def
      ex_ext_config_def ex_config_def)

lemma ex_choose_second:
  "result (choose_test_speaker ex_pick_env ex_ext_config ex_embeddings 0) = Inr (None, Some [3, 4])"
  by (simp add: choose_test_speaker_def ex_ext_config_def ex_config_def ex_pick_env_def ex_env_def
      ex_embeddings_def result_bind result_randrange dict_get_def embedding_of_def)

theorem external_test_speaker_choice_witness:
  "use_speaker_embedding ex_ext_config \<and> use_external_speaker_embedding_file ex_ext_config \<and>
   result (choose_test_speaker ex_pick_env ex_ext_config ex_embeddings 0) = Inr (None, Some [3, 4]) \<and>
   randrange_pick ex_pick_env 0 mod (length ex_embeddings - 1) = 1 \<and>
   length ex_one_speaker = 1 \<and>
   result (evaluate ex_env ex_ext_config ex_globals ex_args ex_one_speaker
     (Plain (init_flows ex_env)) None 0 101) = Inl (Exception ''ValueError'')"
proof -
  have u: "use_speaker_embedding ex_ext_config" "use_external_speaker_embedding_file ex_ext_config"
    by (simp_all add: ex_ext_config_def)
  note t1 = external_test_speaker_choice[OF u, of ex_embeddings ex_pick_env 0 ex_args ex_globals
      "Plain (init_flows ex_env)" None 101]
  note t2 = external_test_speaker_choice[OF u, of ex_one_speaker ex_env 0 ex_args ex_globals
      "Plain (init_flows ex_env)" None 101]
  from t1[THEN conjunct2, THEN conjunct1, rule_format, OF ex_choose_second]
  have k: "randrange_pick ex_pick_env 0 mod (length ex_embeddings - 1) < length ex_embeddings - 1"
    by blast
  have l: "length ex_embeddings - 1 = 2"
    by (simp add: ex_embeddings_def)
  have k1: "randrange_pick ex_pick_env 0 mod (length ex_embeddings - 1) = 1"
    unfolding l by (simp add: ex_pick_env_def ex_env_def)
  have h: "length ex_one_speaker = 1 \<and> rank ex_args = 0 \<and> test_delay_epochs ex_ext_config \<le> int 0 \<and>
      returns (validation_pass ex_env ex_ext_config ex_globals ex_args ex_one_speaker
        (Plain (init_flows ex_env)) None 0 101) \<and>
      returns (load_test_sentences ex_env ex_ext_config 0)"
    using validation_pass_no_loader ex_ext_load
    by (simp add: ex_one_speaker_def ex_args_def ex_ext_config_def ex_config_def)
  note e = t2[THEN conjunct2, THEN conjunct2, THEN conjunct2, rule_format, OF h, THEN conjunct1]
  from u ex_choose_second k1 h e show ?thesis by simp
qed

subsection \<open>Restoring a checkpoint\<close>

lemma result_main_setup [simp]: "result (main_setup cfg g) = Inr ()"
  by (simp add: main_setup_def result_seq result_if_then)











subsection \<open>The best loss\<close>

lemma never_mono: "never Q m \<Longrightarrow> (\<And>ev. P ev \<Longrightarrow> Q ev) \<Longrightarrow> never P m"
  by (auto simp: never_def list_all_iff)

lemma never_script_train_step:
  "never is_script_event (train_step env cfg g a sm m epoch num_iter data gs ka)"
  unfolding train_step_def Let_def forward_and_loss_def backward_and_update_def
    train_step_report_def train_step_rank0_def aggregate_losses_def
  by (intro never_intros never_format_data never_mod_is_zero)
     (auto simp: inference_event_def intro!: never_intros split: if_splits)

lemma never_script_train_loop:
  "never is_script_event (train_loop env cfg g a sm m epoch num_iter ds gs ka)"
  by (induction ds arbitrary: num_iter gs ka)
     (auto intro!: never_intros never_script_train_step)

lemma never_script_train: "never is_script_event (train env cfg g a sm m epoch gs)"
  unfolding train_def
  by (intro never_intros never_script_train_loop) (auto intro!: never_intros)

lemma never_script_eval_step:
  "never is_script_event (eval_step env cfg g sm m epoch num_iter data ka)"
  unfolding eval_step_def Let_def aggregate_losses_def
  by (intro never_intros never_format_data) (auto intro!: never_intros)

lemma never_script_eval_loop:
  "never is_script_event (eval_loop env cfg g sm m epoch num_iter ds ka lb)"
  by (induction ds arbitrary: num_iter ka lb)
     (auto intro!: never_intros never_script_eval_step)

lemma never_script_validation_pass:
  "never is_script_event (validation_pass env cfg g a sm m loader epoch gs)"
  unfolding validation_pass_def eval_diagnostics_def
  by (auto split: option.splits simp: inference_event_def
           intro!: never_intros never_script_eval_loop)

lemma never_script_synth_loop: "never is_script_event (synth_loop env g epoch gs spk idx ss)"
  by (induction ss arbitrary: idx)
     (auto simp: synth_sentence_def log_test_error_def intro!: never_intros)

lemma never_script_synthesize:
  "never is_script_event (synthesize_test_sentences env cfg g sm epoch gs)"
  unfolding synthesize_test_sentences_def load_test_sentences_def choose_test_speaker_def
    embedding_of_def
  by (auto split: option.splits speaker_val.splits
           intro!: never_intros never_script_synth_loop never_randrange never_dict_get)

lemma never_script_evaluate: "never is_script_event (evaluate env cfg g a sm m loader epoch gs)"
  unfolding evaluate_def
  by (intro never_intros never_script_validation_pass never_script_synthesize) auto

lemma never_avg_get: "(\<And>e. \<not> P (Raised e)) \<Longrightarrow> never P (avg_get d k)"
  by (simp add: avg_get_def split: option.splits)







subsection \<open>Exceptions at the top level\<close>

lemma exit_is_script: "is_exit_event ev \<Longrightarrow> is_script_event ev"
  by (erule is_exit_event.elims) simp_all

lemma never_exit_train: "never is_exit_event (train env cfg g a sm m epoch gs)"
  by (rule never_mono[where Q = is_script_event and P = is_exit_event,
        OF never_script_train exit_is_script])

lemma never_exit_evaluate: "never is_exit_event (evaluate env cfg g a sm m loader epoch gs)"
  by (rule never_mono[where Q = is_script_event and P = is_exit_event,
        OF never_script_evaluate exit_is_script])

lemma never_exit_setup_loader: "never is_exit_event (setup_loader cfg g is_val)"
  unfolding setup_loader_def Let_def
  by (auto intro!: never_intros)

lemma never_exit_set_ddi_flows: "never is_exit_event (set_ddi_flows b i fs)"
  by (induction fs arbitrary: i) (auto intro!: never_intros)

lemma never_exit_ddi_loop: "never is_exit_event (ddi_loop env cfg g sm m pos n ds)"
  by (induction ds arbitrary: pos n) (auto intro!: never_intros never_format_data)

lemma never_exit_data_depended_init: "never is_exit_event (data_depended_init env cfg g sm m)"
  unfolding data_depended_init_def set_ddi_model_def
  by (auto intro!: never_intros never_exit_set_ddi_flows never_exit_ddi_loop)

lemma never_exit_init_best_loss: "never is_exit_event (init_best_loss env a rs)"
  unfolding init_best_loss_def
  by (auto split: option.splits intro!: never_intros)

lemma never_exit_restore_checkpoint: "never is_exit_event (restore_checkpoint env a)"
  unfolding restore_checkpoint_def full_restore_def partial_restore_def
  by (auto split: option.splits intro!: never_intros)

lemma never_exit_run_epoch:
  "never is_exit_event (run_epoch env cfg g a sm m eval_loader epoch gs best)"
  unfolding run_epoch_def select_target_loss_def
  by (auto intro!: never_intros never_exit_train never_exit_evaluate never_avg_get)

lemma never_exit_epoch_loop:
  "never is_exit_event (epoch_loop env cfg g a sm m eval_loader es gs best)"
  by (induction es arbitrary: gs best) (auto intro!: never_intros never_exit_run_epoch)

lemma never_exit_main_after_restore: "never is_exit_event (main_after_restore env cfg g a rs)"
  unfolding main_after_restore_def
  by (intro never_intros never_exit_init_best_loss never_exit_setup_loader
        never_exit_data_depended_init never_exit_epoch_loop)
     auto

lemma never_exit_main: "never is_exit_event (main env cfg g a)"
  unfolding main_def main_setup_def
  by (intro never_intros never_exit_restore_checkpoint never_exit_main_after_restore) auto

text \<open>
  Claim C7, as stated, fails in two runs. In the first, an interrupt is raised while the
  first test sentence is synthesized: the \<open>except\<close> of the loop over the test sentences
  catches it, the error is logged, the next sentence is synthesized, the epoch ends with
  the selection of the best model, the experiment directory is not removed and \<open>main\<close>
  returns. In the second, the forward pass of the first training step raises
  \<open>SystemExit(3)\<close>, which is an exception other than the interrupt but does not derive from
  \<open>Exception\<close>: neither handler catches it, the experiment directory is not removed, no
  traceback is printed by the script and the exit status is 3.
\<close>

theorem top_level_cleanup_counterexample:
  "Raised KeyboardInterrupt \<in> set (fst (script ex_interrupted_env ex_config ex_globals ex_args)) \<and>
   Remove_experiment_folder (OUT_PATH ex_globals)
     \<notin> set (fst (script ex_interrupted_env ex_config ex_globals ex_args)) \<and>
   precedes (Raised KeyboardInterrupt) (Synthesis 1 ''Bye.'' None None)
     (fst (script ex_interrupted_env ex_config ex_globals ex_args)) \<and>
   precedes (Raised KeyboardInterrupt) (Save_best_model (Fin 3) PosInf 1 0)
     (fst (script ex_interrupted_env ex_config ex_globals ex_args)) \<and>
   result (main ex_interrupted_env ex_config ex_globals ex_args) = Inr () \<and>
   result (main ex_exiting_env ex_config ex_globals ex_args) = Inl (SystemExit 3) \<and>
   Remove_experiment_folder (OUT_PATH ex_globals)
     \<notin> set (fst (script ex_exiting_env ex_config ex_globals ex_args)) \<and>
   Call ''traceback.print_exc'' \<notin> set (fst (script ex_exiting_env ex_config ex_globals ex_args)) \<and>
   snd (script ex_exiting_env ex_config ex_globals ex_args) = 3"
  by code_simp

text \<open>
  Claim C7, amended. A \<open>KeyboardInterrupt\<close> that propagates out of \<open>main\<close> causes the
  experiment output directory to be removed and the process to exit with status 0; any
  other exception that derives from \<open>Exception\<close> and propagates out of \<open>main\<close> causes the
  same removal, the traceback to be printed and the process to exit with status 1.
  \<open>main\<close> itself never removes the directory and never exits, and when \<open>main\<close> returns
  nothing is removed.
\<close>

theorem exception_leaving_main_is_cleaned_up:
  "never is_exit_event (main env cfg g a) \<and>
   (result (main env cfg g a) = Inl KeyboardInterrupt \<longrightarrow>
      script env cfg g a =
        (trace (main env cfg g a) @
           [Remove_experiment_folder (OUT_PATH g), Sys_exit 0, Os_exit 0], 0)) \<and>
   (\<forall>n. result (main env cfg g a) = Inl (Exception n) \<longrightarrow>
      script env cfg g a =
        (trace (main env cfg g a) @
           [Remove_experiment_folder (OUT_PATH g), Call ''traceback.print_exc'', Sys_exit 1], 1)) \<and>
   (\<forall>u. result (main env cfg g a) = Inr u \<longrightarrow> script env cfg g a = (trace (main env cfg g a), 0))"
proof (intro conjI allI impI)
  show "never is_exit_event (main env cfg g a)"
    by (rule never_exit_main)
next
  assume "result (main env cfg g a) = Inl KeyboardInterrupt"
  then show "script env cfg g a =
        (trace (main env cfg g a) @
           [Remove_experiment_folder (OUT_PATH g), Sys_exit 0, Os_exit 0], 0)"
    by (cases "main env cfg g a")
       (simp add: script_def run_script_def remove_experiment_folder_def result_def trace_def)
next
  fix n assume "result (main env cfg g a) = Inl (Exception n)"
  then show "script env cfg g a =
        (trace (main env cfg g a) @
           [Remove_experiment_folder (OUT_PATH g), Call ''traceback.print_exc'', Sys_exit 1], 1)"
    by (cases "main env cfg g a")
       (simp add: script_def run_script_def remove_experiment_folder_def result_def trace_def)
next
  fix u assume "result (main env cfg g a) = Inr u"
  then show "script env cfg g a = (trace (main env cfg g a), 0)"
    by (cases "main env cfg g a")
       (simp add: script_def run_script_def remove_experiment_folder_def result_def trace_def)
qed

lemma ex_main_interrupted:
  "result (main ex_interrupted_training_env ex_config ex_globals ex_args) = Inl KeyboardInterrupt"
  by code_simp

lemma ex_main_crashes:
  "result (main ex_crashing_env ex_config ex_globals ex_args) = Inl (Exception ''RuntimeError'')"
  by code_simp

theorem exception_leaving_main_is_cleaned_up_witness:
  "result (main ex_interrupted_training_env ex_config ex_globals ex_args) = Inl KeyboardInterrupt \<and>
   snd (script ex_interrupted_training_env ex_config ex_globals ex_args) = 0 \<and>
   Remove_experiment_folder ''out''
     \<in> set (fst (script ex_interrupted_training_env ex_config ex_globals ex_args)) \<and>
   result (main ex_crashing_env ex_config ex_globals ex_args) = Inl (Exception ''RuntimeError'') \<and>
   snd (script ex_crashing_env ex_config ex_globals ex_args) = 1 \<and>
   Remove_experiment_folder ''out''
     \<in> set (fst (script ex_crashing_env ex_config ex_globals ex_args))"
proof -
  note t1 = exception_leaving_main_is_cleaned_up[of ex_interrupted_training_env ex_config
      ex_globals ex_args]
  note t2 = exception_leaving_main_is_cleaned_up[of ex_crashing_env ex_config ex_globals ex_args]
  note s1 = t1[THEN conjunct2, THEN conjunct1, rule_format, OF ex_main_interrupted]
  note s2 = t2[THEN conjunct2, THEN conjunct2, THEN conjunct1, rule_format, OF ex_main_crashes]
  have o: "OUT_PATH ex_globals = ''out''" by (simp add: ex_globals_def)
  from ex_main_interrupted ex_main_crashes show ?thesis
    unfolding s1 s2 o by simp
qed

end
